theory Spec2Isabelle
  imports Main "HOL-Library.Word"
begin

section \<open>Data model\<close>

text \<open>
  A digest is the canonical string form of a content address (\<^verbatim>\<open>digest.Digest\<close> is a Go
  string); blob content is a sequence of bytes.
\<close>

type_synonym digest = string
type_synonym bytes = "8 word list"

text \<open>
  Modelled from the spec: \<^verbatim>\<open>distribution.Descriptor\<close>, whose declaration is not among the
  source files, has a digest, a size, a media type and annotations, a map from strings to
  strings. A Go map that is nil answers every lookup with \<^verbatim>\<open>ok = false\<close>, as the empty
  map does, so both are \<open>Map.empty\<close>.
\<close>

record Descriptor =
  MediaType :: string
  Size :: int
  Digest :: digest
  Annotations :: "string \<rightharpoonup> string"

text \<open>The fields of \<^verbatim>\<open>url.URL\<close> that the code reads or writes.\<close>

record url =
  Scheme :: string
  Host :: string
  Path :: string

definition emptyDescriptor :: Descriptor where
  "emptyDescriptor = \<lparr>MediaType = [], Size = 0, Digest = [], Annotations = Map.empty\<rparr>"

text \<open>
  Go error values: the sentinels that the code names, \<^verbatim>\<open>ErrBlobMounted\<close> with the
  descriptor it carries, an error that wraps another one (\<open>Wrapped\<close>, its \<^verbatim>\<open>Unwrap\<close>
  chain), and any other error, identified by its message (\<open>ErrorString\<close>).
\<close>

datatype error =
    ErrBlobUnknown
  | ErrUnsupported
  | ErrBlobInvalidDigest
  | ErrBlobMounted Descriptor
  | ErrorString string
  | Wrapped string error

text \<open>
  \<^verbatim>\<open>errors.As(err, &ebm)\<close> with \<^verbatim>\<open>ebm\<close> of type \<^verbatim>\<open>distribution.ErrBlobMounted\<close>: the
  first error of the chain that has that type.
\<close>

fun errors_As_ErrBlobMounted :: "error \<Rightarrow> Descriptor option" where
  "errors_As_ErrBlobMounted (ErrBlobMounted d) = Some d"
| "errors_As_ErrBlobMounted (Wrapped m e) = errors_As_ErrBlobMounted e"
| "errors_As_ErrBlobMounted ErrBlobUnknown = None"
| "errors_As_ErrBlobMounted ErrUnsupported = None"
| "errors_As_ErrBlobMounted ErrBlobInvalidDigest = None"
| "errors_As_ErrBlobMounted (ErrorString m) = None"

section \<open>The blob handlers (registry/handlers/blob.go)\<close>

subsection \<open>What the handlers work on\<close>

text \<open>Registry error codes with their detail, as appended to \<^verbatim>\<open>ctx.Errors\<close>.\<close>

datatype errcode =
    ErrorCodeUnknown
  | ErrorCodeUnsupported
  | ErrorCodeBlobUnknown
  | ErrorCodeDigestInvalid

datatype detail = NoDetail | DigestDetail digest | ErrorDetail error

datatype ctx_error = Coded errcode detail | Plain error

record Request =
  Method :: string
  URL :: url

record ResponseWriter =
  header :: "string \<rightharpoonup> string"
  status :: "nat option"
  body :: bytes

datatype BlobCreateOption = WithMount digest | WithoutUpload

text \<open>
  \<^verbatim>\<open>distribution.BlobStore\<close> is an interface: the handler sees only its methods. Each
  method takes the state of the store and returns its answer with the new state; a Go
  \<^verbatim>\<open>(value, error)\<close> pair is a sum with the error on the left.
\<close>

record ('s, 'w) BlobStore =
  bsStat :: "digest \<Rightarrow> 's \<Rightarrow> (error + Descriptor) \<times> 's"
  bsCreate :: "BlobCreateOption list \<Rightarrow> 's \<Rightarrow> (error + 'w) \<times> 's"
  bsServeBlob :: "ResponseWriter \<Rightarrow> Request \<Rightarrow> digest \<Rightarrow> 's \<Rightarrow> (error option \<times> ResponseWriter) \<times> 's"
  bsDelete :: "digest \<Rightarrow> 's \<Rightarrow> error option \<times> 's"

datatype call =
    CallStat digest
  | CallCreate "BlobCreateOption list"
  | CallServeBlob digest
  | CallDelete digest

text \<open>
  What a handler changes: the error list of the request context, the state of the blob
  store, and the calls made on the store so far, in order.
\<close>

record 's World =
  Errors :: "ctx_error list"
  store :: 's
  calls :: "call list"

record ('s, 'w) Context =
  readOnly :: bool
  Blobs :: "('s, 'w) BlobStore"

record ('s, 'w) blobHandler =
  bhContext :: "('s, 'w) Context"
  bhDigest :: digest

type_synonym 's HandlerFunc = "ResponseWriter \<Rightarrow> Request \<Rightarrow> 's World \<Rightarrow> ResponseWriter \<times> 's World"

definition appendError :: "ctx_error \<Rightarrow> 's World \<Rightarrow> 's World" where
  "appendError e wld = wld\<lparr>Errors := Errors wld @ [e]\<rparr>"

definition Stat_call :: "('s, 'w) BlobStore \<Rightarrow> digest \<Rightarrow> 's World \<Rightarrow> (error + Descriptor) \<times> 's World" where
  "Stat_call blobs d wld =
     (let (r, s') = bsStat blobs d (store wld)
      in (r, wld\<lparr>store := s', calls := calls wld @ [CallStat d]\<rparr>))"

definition Create_call :: "('s, 'w) BlobStore \<Rightarrow> BlobCreateOption list \<Rightarrow> 's World \<Rightarrow> (error + 'w) \<times> 's World" where
  "Create_call blobs opts wld =
     (let (r, s') = bsCreate blobs opts (store wld)
      in (r, wld\<lparr>store := s', calls := calls wld @ [CallCreate opts]\<rparr>))"

definition ServeBlob_call ::
  "('s, 'w) BlobStore \<Rightarrow> ResponseWriter \<Rightarrow> Request \<Rightarrow> digest \<Rightarrow> 's World \<Rightarrow> (error option \<times> ResponseWriter) \<times> 's World" where
  "ServeBlob_call blobs w r d wld =
     (let (r', s') = bsServeBlob blobs w r d (store wld)
      in (r', wld\<lparr>store := s', calls := calls wld @ [CallServeBlob d]\<rparr>))"

definition Delete_call :: "('s, 'w) BlobStore \<Rightarrow> digest \<Rightarrow> 's World \<Rightarrow> error option \<times> 's World" where
  "Delete_call blobs d wld =
     (let (r, s') = bsDelete blobs d (store wld)
      in (r, wld\<lparr>store := s', calls := calls wld @ [CallDelete d]\<rparr>))"

subsection \<open>GetBlob\<close>

text \<open>The last statement of \<^verbatim>\<open>GetBlob\<close>: serve the blob, recording a failure.\<close>

definition serveBlob :: "('s, 'w) BlobStore \<Rightarrow> digest \<Rightarrow> 's HandlerFunc" where
  "serveBlob blobs blobDigest w r wld =
     (case ServeBlob_call blobs w r blobDigest wld of
        ((Some err, w'), wld') \<Rightarrow> (w', appendError (Coded ErrorCodeUnknown (ErrorDetail err)) wld')
      | ((None, w'), wld') \<Rightarrow> (w', wld'))"

definition GetBlob :: "('s, 'w) blobHandler \<Rightarrow> 's HandlerFunc" where
  "GetBlob bh w r wld =
     (let blobs = Blobs (bhContext bh) in
      case Stat_call blobs (bhDigest bh) wld of
        (Inl err, wld1) \<Rightarrow>
          if err = ErrBlobUnknown then
            (case Create_call blobs [WithMount (bhDigest bh), WithoutUpload] wld1 of
               (Inl err2, wld2) \<Rightarrow>
                 (case errors_As_ErrBlobMounted err2 of
                    Some ebm \<Rightarrow> serveBlob blobs (bhDigest bh) w r wld2
                  | None \<Rightarrow>
                      (w, appendError (Coded ErrorCodeBlobUnknown (DigestDetail (bhDigest bh))) wld2))
             | (Inr bw, wld2) \<Rightarrow>
                 (w, appendError (Coded ErrorCodeBlobUnknown (DigestDetail (bhDigest bh))) wld2))
          else (w, appendError (Coded ErrorCodeUnknown (ErrorDetail err)) wld1)
      | (Inr desc, wld1) \<Rightarrow> serveBlob blobs (Digest desc) w r wld1)"

subsection \<open>DeleteBlob\<close>

definition DeleteBlob :: "('s, 'w) blobHandler \<Rightarrow> 's HandlerFunc" where
  "DeleteBlob bh w r wld =
     (case Delete_call (Blobs (bhContext bh)) (bhDigest bh) wld of
        (Some err, wld1) \<Rightarrow>
          if err = ErrUnsupported then (w, appendError (Coded ErrorCodeUnsupported NoDetail) wld1)
          else if err = ErrBlobUnknown then (w, appendError (Coded ErrorCodeBlobUnknown NoDetail) wld1)
          else (w, appendError (Plain err) wld1)
      | (None, wld1) \<Rightarrow>
          (w\<lparr>header := (header w)(''Content-Length'' \<mapsto> ''0''), status := Some 202\<rparr>, wld1))"

subsection \<open>blobDispatcher\<close>

text \<open>
  The dispatcher returns an \<^verbatim>\<open>http.Handler\<close>: a plain handler function, or a
  \<^verbatim>\<open>handlers.MethodHandler\<close>, which is a Go map from the method name to a handler.
\<close>

datatype 's Handler =
    HandlerFunc "'s HandlerFunc"
  | MethodHandler "string \<rightharpoonup> 's HandlerFunc"

definition MethodGet :: string where "MethodGet = ''GET''"
definition MethodHead :: string where "MethodHead = ''HEAD''"
definition MethodDelete :: string where "MethodDelete = ''DELETE''"

text \<open>
  \<^verbatim>\<open>getDigest\<close> is defined elsewhere in the package; its answer for the request
  context is the argument \<open>dgst\<close>. Both error branches of the dispatcher build the same
  handler.
\<close>

definition digestInvalid :: "error \<Rightarrow> 's HandlerFunc" where
  "digestInvalid err w r wld = (w, appendError (Coded ErrorCodeDigestInvalid (ErrorDetail err)) wld)"

definition blobDispatcher :: "error \<Rightarrow> ('s, 'w) Context \<Rightarrow> (error + digest) \<Rightarrow> 's Handler" where
  "blobDispatcher errDigestNotAvailable ctx dgst =
     (case dgst of
        Inl err \<Rightarrow>
          if err = errDigestNotAvailable then HandlerFunc (digestInvalid err)
          else HandlerFunc (digestInvalid err)
      | Inr d \<Rightarrow>
          (let bh = \<lparr>bhContext = ctx, bhDigest = d\<rparr>;
               mhandler = [MethodGet \<mapsto> GetBlob bh, MethodHead \<mapsto> GetBlob bh]
           in if \<not> readOnly ctx
              then MethodHandler (mhandler(MethodDelete \<mapsto> DeleteBlob bh))
              else MethodHandler mhandler))"

text \<open>
  The outcome of the mount attempt that \<^verbatim>\<open>GetBlob\<close> takes for a mount: \<^verbatim>\<open>Create\<close>
  failed, and the error is, or wraps, an \<^verbatim>\<open>ErrBlobMounted\<close>.
\<close>

definition mountSignalled :: "(error + 'w) \<Rightarrow> bool" where
  "mountSignalled cr = (case cr of Inl e \<Rightarrow> errors_As_ErrBlobMounted e \<noteq> None | Inr bw \<Rightarrow> False)"

text \<open>
  A blob store for examples: it gives fixed answers and counts the calls made on it in
  its state; serving sets the response status.
\<close>

definition stubStore ::
  "(error + Descriptor) \<Rightarrow> (error + unit) \<Rightarrow> error option \<Rightarrow> error option \<Rightarrow> (nat, unit) BlobStore" where
  "stubStore st cr sv dl =
     \<lparr>bsStat = (\<lambda>d s. (st, s + 1)),
      bsCreate = (\<lambda>opts s. (cr, s + 1)),
      bsServeBlob = (\<lambda>w r d s. ((sv, w\<lparr>status := Some 200\<rparr>), s + 1)),
      bsDelete = (\<lambda>d s. (dl, s + 1))\<rparr>"

section \<open>The proxying registry (registry/proxy/proxyregistry.go)\<close>

subsection \<open>The descriptor service and setPublic\<close>

text \<open>
  \<^verbatim>\<open>distribution.BlobDescriptorService\<close> is an interface; \<open>'c\<close> is the state of the
  cache behind it. \<^verbatim>\<open>Stat\<close> is a query: it answers from the cache and leaves it as it is.
\<close>

record 'c BlobDescriptorService =
  dsStat :: "'c \<Rightarrow> digest \<Rightarrow> error + Descriptor"
  dsSetDescriptor :: "'c \<Rightarrow> digest \<Rightarrow> Descriptor \<Rightarrow> error option \<times> 'c"

text \<open>
  The result is the Go pair \<^verbatim>\<open>(bool, error)\<close>, with the cache the call leaves.
\<close>

definition setPublic :: "'c BlobDescriptorService \<Rightarrow> digest \<Rightarrow> 'c \<Rightarrow> (bool \<times> error option) \<times> 'c" where
  "setPublic ds dgst c =
     (let (desc, err) =
            (case dsStat ds c dgst of
               Inl e \<Rightarrow> if e = ErrBlobUnknown then (emptyDescriptor, None) else (emptyDescriptor, Some e)
             | Inr d \<Rightarrow> (d, None))
      in case err of
           Some e \<Rightarrow> ((False, Some e), c)
         | None \<Rightarrow>
             (case Annotations desc ''public'' of
                None \<Rightarrow>
                  (case dsSetDescriptor ds c dgst (desc\<lparr>Annotations := [''public'' \<mapsto> ''true'']\<rparr>) of
                     (Some e, c') \<Rightarrow> ((False, Some e), c')
                   | (None, c') \<Rightarrow> ((True, None), c'))
              | Some v \<Rightarrow> ((False, None), c)))"

text \<open>
  \<^verbatim>\<open>setBlobPublic\<close> is the callback handed to the proxy blob store: it calls
  \<^verbatim>\<open>setPublic\<close> and only logs what comes back.
\<close>

definition setBlobPublic :: "'c BlobDescriptorService \<Rightarrow> digest \<Rightarrow> 'c \<Rightarrow> 'c" where
  "setBlobPublic ds dgst c = snd (setPublic ds dgst c)"

subsection \<open>The startup scan\<close>

text \<open>
  Modelled from the spec: \<^verbatim>\<open>Enumerate\<close> of the embedded namespace's blob enumerator is not
  among the source files. It is the scan of every blob in the local namespace: the function
  is called on each digest of the namespace in turn, and the first error it returns ends
  the enumeration and is its result.
\<close>

fun Enumerate :: "digest list \<Rightarrow> (digest \<Rightarrow> 'st \<Rightarrow> error option \<times> 'st) \<Rightarrow> 'st \<Rightarrow> error option \<times> 'st" where
  "Enumerate [] ingester st = (None, st)"
| "Enumerate (dgst # rest) ingester st =
     (case ingester dgst st of
        (Some err, st') \<Rightarrow> (Some err, st')
      | (None, st') \<Rightarrow> Enumerate rest ingester st')"

text \<open>What the scan changes: the cache, and the two counters it logs at the end.\<close>

record 'c scan =
  cache :: 'c
  blobCount :: int
  blobTaggedCount :: int

definition scanBlob :: "'c BlobDescriptorService \<Rightarrow> digest \<Rightarrow> 'c scan \<Rightarrow> error option \<times> 'c scan" where
  "scanBlob ds dgst st =
     (case setPublic ds dgst (cache st) of
        ((public, Some err), c') \<Rightarrow> (Some err, st\<lparr>cache := c'\<rparr>)
      | ((public, None), c') \<Rightarrow>
          (None, st\<lparr>cache := c', blobCount := blobCount st + 1,
                    blobTaggedCount := (if public then blobTaggedCount st + 1 else blobTaggedCount st)\<rparr>))"

definition setBlobsPublic :: "'c BlobDescriptorService \<Rightarrow> digest list \<Rightarrow> 'c \<Rightarrow> 'c scan" where
  "setBlobsPublic ds blobs c =
     snd (Enumerate blobs (scanBlob ds) \<lparr>cache = c, blobCount = 0, blobTaggedCount = 0\<rparr>)"

text \<open>
  Modelled from the spec: the descriptor cache service, whose implementations are not among
  the source files. Its key is the blob digest and its value the descriptor with the
  annotations map; a digest it holds nothing for is unknown.
\<close>

definition memoryCache :: "(digest \<rightharpoonup> Descriptor) BlobDescriptorService" where
  "memoryCache =
     \<lparr>dsStat = (\<lambda>c dgst. case c dgst of None \<Rightarrow> Inl ErrBlobUnknown | Some desc \<Rightarrow> Inr desc),
      dsSetDescriptor = (\<lambda>c dgst desc. (None, c(dgst \<mapsto> desc)))\<rparr>"

text \<open>
  The contract of the descriptor cache service, which the spec describes as a store keyed
  by the blob digest: no call fails (\<^verbatim>\<open>Stat\<close> answers with a descriptor or with
  \<^verbatim>\<open>ErrBlobUnknown\<close>), and \<^verbatim>\<open>SetDescriptor\<close> stores the descriptor for its digest and for
  no other.
\<close>

definition reliable :: "'c BlobDescriptorService \<Rightarrow> bool" where
  "reliable ds \<longleftrightarrow>
     (\<forall>c dgst e. dsStat ds c dgst = Inl e \<longrightarrow> e = ErrBlobUnknown)
     \<and> (\<forall>c dgst desc. fst (dsSetDescriptor ds c dgst desc) = None)
     \<and> (\<forall>c dgst desc. dsStat ds (snd (dsSetDescriptor ds c dgst desc)) dgst = Inr desc)
     \<and> (\<forall>c dgst desc other. other \<noteq> dgst \<longrightarrow>
           dsStat ds (snd (dsSetDescriptor ds c dgst desc)) other = dsStat ds c other)"

text \<open>The descriptor that \<^verbatim>\<open>setPublic\<close> works on: the cached one, or the empty one.\<close>

definition cached :: "'c BlobDescriptorService \<Rightarrow> 'c \<Rightarrow> digest \<Rightarrow> Descriptor" where
  "cached ds c dgst = (case dsStat ds c dgst of Inl e \<Rightarrow> emptyDescriptor | Inr desc \<Rightarrow> desc)"

text \<open>
  What \<^verbatim>\<open>Stat\<close> answers for a digest once \<^verbatim>\<open>setPublic\<close> has run on it with a reliable
  service: the descriptor with \<open>public = true\<close> as its only annotation when it had none
  under that key, and what it answered before otherwise.
\<close>

definition marked :: "'c BlobDescriptorService \<Rightarrow> 'c \<Rightarrow> digest \<Rightarrow> error + Descriptor" where
  "marked ds c dgst =
     (case Annotations (cached ds c dgst) ''public'' of
        None \<Rightarrow> Inr ((cached ds c dgst)\<lparr>Annotations := [''public'' \<mapsto> ''true'']\<rparr>)
      | Some v \<Rightarrow> dsStat ds c dgst)"

text \<open>
  The only statement that writes the key \<open>public\<close> is the one of \<^verbatim>\<open>setPublic\<close>, and it
  writes \<open>true\<close>: in a cache that no other writer has touched under that key, every
  annotation under it is \<open>true\<close>.
\<close>

definition publicMeansTrue :: "'c BlobDescriptorService \<Rightarrow> 'c \<Rightarrow> bool" where
  "publicMeansTrue ds c \<longleftrightarrow>
     (\<forall>dgst desc v. dsStat ds c dgst = Inr desc \<longrightarrow> Annotations desc ''public'' = Some v \<longrightarrow> v = ''true'')"

text \<open>
  Modelled from the spec: the annotation \<open>public = true\<close> on its cached descriptor marks
  a blob as eligible for the cross-repository auto-mount.
\<close>

definition eligible :: "'c BlobDescriptorService \<Rightarrow> 'c \<Rightarrow> digest \<Rightarrow> bool" where
  "eligible ds c dgst =
     (case dsStat ds c dgst of
        Inl e \<Rightarrow> False
      | Inr desc \<Rightarrow> Annotations desc ''public'' = Some ''true'')"

subsection \<open>The remote auth challenger\<close>

record Challenge =
  challengeScheme :: string
  Parameters :: "string \<rightharpoonup> string"

text \<open>
  \<^verbatim>\<open>remoteAuthChallenger\<close>: \<open>'m\<close> is the state of the challenge manager behind \<^verbatim>\<open>cm\<close>,
  \<open>'cs\<close> the credential store.
\<close>

record ('m, 'cs) remoteAuthChallenger =
  rac_remoteURL :: url
  rac_cm :: 'm
  rac_cs :: 'cs

text \<open>
  What \<^verbatim>\<open>tryEstablishChallenges\<close> calls: \<^verbatim>\<open>GetChallenges\<close> of the challenge manager (a
  query), the package's \<^verbatim>\<open>ping\<close> (the one network request; it registers what the upstream
  answers with the manager, so it returns the manager's new state), \<^verbatim>\<open>String\<close> of
  \<^verbatim>\<open>url.URL\<close>, and the constant \<^verbatim>\<open>challengeHeader\<close>. None of them is among the source
  files, so they are parameters.
\<close>

record 'm ChallengeEnv =
  GetChallenges :: "'m \<Rightarrow> url \<Rightarrow> error + Challenge list"
  ping :: "'m \<Rightarrow> string \<Rightarrow> string \<Rightarrow> error option \<times> 'm"
  urlString :: "url \<Rightarrow> string"
  challengeHeader :: string

text \<open>
  The result is the error, the challenger as the call leaves it, and the endpoints pinged,
  in order. The mutex and the log line are left out.
\<close>

definition tryEstablishChallenges ::
  "'m ChallengeEnv \<Rightarrow> ('m, 'cs) remoteAuthChallenger \<Rightarrow> error option \<times> ('m, 'cs) remoteAuthChallenger \<times> string list" where
  "tryEstablishChallenges env r =
     (let remoteURL = (rac_remoteURL r)\<lparr>Path := ''/v2/''\<rparr>
      in case GetChallenges env (rac_cm r) remoteURL of
           Inl err \<Rightarrow> (Some err, r, [])
         | Inr challenges \<Rightarrow>
             if length challenges > 0 then (None, r, [])
             else (case ping env (rac_cm r) (urlString env remoteURL) (challengeHeader env) of
                     (Some err, m') \<Rightarrow> (Some err, r\<lparr>rac_cm := m'\<rparr>, [urlString env remoteURL])
                   | (None, m') \<Rightarrow> (None, r\<lparr>rac_cm := m'\<rparr>, [urlString env remoteURL])))"

subsection \<open>The expiry callbacks\<close>

text \<open>
  Modelled from the spec: the reference package is not among the source files. A
  reference is either a canonical reference (repository name and digest) or a tag reference
  (repository name and tag); only the first is a \<^verbatim>\<open>reference.Canonical\<close>.
\<close>

datatype Reference = Canonical string digest | Tagged string string

text \<open>
  What the callbacks call: the local registry, the blob store and the manifest service of
  a repository, and the vacuum; \<open>'s\<close> is the state of the storage behind them all.
  \<open>typeName\<close> is what \<^verbatim>\<open>%T\<close> prints for a reference.
\<close>

record ('s, 'repo, 'mf) ExpireEnv =
  regRepository :: "Reference \<Rightarrow> 's \<Rightarrow> error + 'repo"
  blobsDelete :: "'repo \<Rightarrow> digest \<Rightarrow> 's \<Rightarrow> error option \<times> 's"
  vacuumRemoveBlob :: "string \<Rightarrow> 's \<Rightarrow> error option \<times> 's"
  repoManifests :: "'repo \<Rightarrow> 's \<Rightarrow> error + 'mf"
  manifestsDelete :: "'mf \<Rightarrow> digest \<Rightarrow> 's \<Rightarrow> error option \<times> 's"
  typeName :: "Reference \<Rightarrow> string"

datatype ('repo, 'mf) deletion =
    BlobsDelete 'repo digest
  | RemoveBlob string
  | ManifestsDelete 'mf digest

type_synonym ('s, 'repo, 'mf) expiryFunc =
  "Reference \<Rightarrow> 's \<Rightarrow> (error option \<times> ('repo, 'mf) deletion list) \<times> 's"

text \<open>
  A callback returns its error, the deletions it called for, in order, and the storage
  it leaves.
\<close>

definition OnBlobExpire_callback :: "('s, 'repo, 'mf) ExpireEnv \<Rightarrow> ('s, 'repo, 'mf) expiryFunc" where
  "OnBlobExpire_callback env ref s =
     (case ref of
        Tagged n t \<Rightarrow> ((Some (ErrorString (''unexpected reference type : '' @ typeName env ref)), []), s)
      | Canonical n dgst \<Rightarrow>
          (case regRepository env ref s of
             Inl err \<Rightarrow> ((Some err, []), s)
           | Inr repo \<Rightarrow>
               (case blobsDelete env repo dgst s of
                  (Some err, s1) \<Rightarrow> ((Some err, [BlobsDelete repo dgst]), s1)
                | (None, s1) \<Rightarrow>
                    (case vacuumRemoveBlob env dgst s1 of
                       (Some err, s2) \<Rightarrow> ((Some err, [BlobsDelete repo dgst, RemoveBlob dgst]), s2)
                     | (None, s2) \<Rightarrow> ((None, [BlobsDelete repo dgst, RemoveBlob dgst]), s2)))))"

definition OnManifestExpire_callback :: "('s, 'repo, 'mf) ExpireEnv \<Rightarrow> ('s, 'repo, 'mf) expiryFunc" where
  "OnManifestExpire_callback env ref s =
     (case ref of
        Tagged n t \<Rightarrow> ((Some (ErrorString (''unexpected reference type : '' @ typeName env ref)), []), s)
      | Canonical n dgst \<Rightarrow>
          (case regRepository env ref s of
             Inl err \<Rightarrow> ((Some err, []), s)
           | Inr repo \<Rightarrow>
               (case repoManifests env repo s of
                  Inl err \<Rightarrow> ((Some err, []), s)
                | Inr manifests \<Rightarrow>
                    (case manifestsDelete env manifests dgst s of
                       (Some err, s1) \<Rightarrow> ((Some err, [ManifestsDelete manifests dgst]), s1)
                     | (None, s1) \<Rightarrow> ((None, [ManifestsDelete manifests dgst]), s1)))))"

subsection \<open>NewRegistryPullThroughCache\<close>

record Proxy =
  RemoteURL :: string
  Username :: string
  Password :: string

record ('s, 'repo, 'mf) TTLExpirationScheduler =
  pathToStateFile :: string
  onBlobExpire :: "('s, 'repo, 'mf) expiryFunc"
  onManifestExpire :: "('s, 'repo, 'mf) expiryFunc"

record ('ns, 'sched, 'ac, 'c) proxyingRegistry =
  embedded :: 'ns
  scheduler :: 'sched
  remoteURL :: url
  authChallenger :: 'ac
  descriptorService :: "'c BlobDescriptorService"

text \<open>
  What the constructor calls outside the source files: \<^verbatim>\<open>url.Parse\<close>, \<^verbatim>\<open>Start\<close> of the
  scheduler (its error), \<^verbatim>\<open>configureAuth\<close> and \<^verbatim>\<open>challenge.NewSimpleManager\<close>.
\<close>

record ('m, 'cs) StartupEnv =
  urlParse :: "string \<Rightarrow> error + url"
  schedulerStart :: "error option"
  configureAuth :: "string \<Rightarrow> string \<Rightarrow> string \<Rightarrow> error + 'cs"
  NewSimpleManager :: 'm

text \<open>
  The steps of the constructor that start something: the scheduler, and the goroutine
  that runs \<^verbatim>\<open>setBlobsPublic\<close>.
\<close>

datatype startup = StartScheduler | GoSetBlobsPublic

definition NewRegistryPullThroughCache ::
  "('m, 'cs) StartupEnv \<Rightarrow> ('s, 'repo, 'mf) ExpireEnv \<Rightarrow> 'ns \<Rightarrow> Proxy \<Rightarrow> 'c BlobDescriptorService \<Rightarrow>
   (error + ('ns, ('s, 'repo, 'mf) TTLExpirationScheduler, ('m, 'cs) remoteAuthChallenger, 'c) proxyingRegistry)
   \<times> startup list" where
  "NewRegistryPullThroughCache env xenv registry config ds =
     (case urlParse env (RemoteURL config) of
        Inl err \<Rightarrow> (Inl err, [])
      | Inr remote \<Rightarrow>
          (let s = \<lparr>pathToStateFile = ''/scheduler-state.json'',
                    onBlobExpire = OnBlobExpire_callback xenv,
                    onManifestExpire = OnManifestExpire_callback xenv\<rparr>
           in case schedulerStart env of
                Some err \<Rightarrow> (Inl err, [StartScheduler])
              | None \<Rightarrow>
                  (case configureAuth env (Username config) (Password config) (RemoteURL config) of
                     Inl err \<Rightarrow> (Inl err, [StartScheduler])
                   | Inr cs \<Rightarrow>
                       (Inr \<lparr>embedded = registry, scheduler = s, remoteURL = remote,
                             authChallenger =
                               \<lparr>rac_remoteURL = remote, rac_cm = NewSimpleManager env, rac_cs = cs\<rparr>,
                             descriptorService = ds\<rparr>,
                        [StartScheduler, GoSetBlobsPublic]))))"


subsection \<open>Repository\<close>

text \<open>
  The objects of the client packages that the constructor builds, as the terms that build
  them: \<^verbatim>\<open>http.DefaultTransport\<close>, \<^verbatim>\<open>transport.NewTransport\<close>, \<^verbatim>\<open>auth.NewAuthorizer\<close>,
  \<^verbatim>\<open>auth.NewTokenHandlerWithOptions\<close> and the fields of \<^verbatim>\<open>auth.TokenHandlerOptions\<close> and
  \<^verbatim>\<open>auth.RepositoryScope\<close> (repository, class, actions).
\<close>

datatype Scope = RepositoryScope string string "string list" | RegistryScope string "string list"

datatype ('cm, 'cs) RoundTripper =
    DefaultTransport
  | NewTransport "('cm, 'cs) RoundTripper" "('cm, 'cs) RequestModifier list"
and ('cm, 'cs) RequestModifier =
    NewAuthorizer 'cm "('cm, 'cs) AuthenticationHandler list"
and ('cm, 'cs) AuthenticationHandler =
    NewTokenHandlerWithOptions "('cm, 'cs) TokenHandlerOptions"
and ('cm, 'cs) TokenHandlerOptions =
    TokenHandlerOptions (Transport: "('cm, 'cs) RoundTripper") (Credentials: 'cs) (Scopes: "Scope list")

datatype ManifestServiceOption = SkipLayerVerification

text \<open>The blob store and the tag service of a repository, local or remote.\<close>

datatype 'r service = BlobsOf 'r | TagsOf 'r

text \<open>
  What the constructor calls outside the source files: the two methods of the auth
  challenger, \<^verbatim>\<open>Repository\<close> of the embedded namespace, \<^verbatim>\<open>Manifests\<close> of the local and of
  the remote repository, \<^verbatim>\<open>client.NewRepository\<close> and \<^verbatim>\<open>String\<close> of \<^verbatim>\<open>url.URL\<close>. A
  repository is named by the string that \<^verbatim>\<open>Name\<close> returns.
\<close>

record ('ns, 'ac, 'cm, 'cs, 'lr, 'rr, 'lm, 'rm) RepositoryEnv =
  credentialStore :: "'ac \<Rightarrow> 'cs"
  challengeManager :: "'ac \<Rightarrow> 'cm"
  embeddedRepository :: "'ns \<Rightarrow> string \<Rightarrow> error + 'lr"
  localManifests :: "'lr \<Rightarrow> ManifestServiceOption list \<Rightarrow> error + 'lm"
  NewRepository :: "string \<Rightarrow> string \<Rightarrow> ('cm, 'cs) RoundTripper \<Rightarrow> error + 'rr"
  remoteManifests :: "'rr \<Rightarrow> error + 'rm"
  remoteURLString :: "url \<Rightarrow> string"

record ('lr, 'rr, 'sched, 'ac, 'c) proxyBlobStore =
  pbs_localStore :: "'lr service"
  pbs_remoteStore :: "'rr service"
  pbs_scheduler :: 'sched
  pbs_repositoryName :: string
  pbs_authChallenger :: 'ac
  pbs_setPublic :: "digest \<Rightarrow> 'c \<Rightarrow> 'c"

record ('lm, 'rm, 'sched, 'ac) proxyManifestStore =
  pms_repositoryName :: string
  pms_localManifests :: 'lm
  pms_remoteManifests :: 'rm
  pms_scheduler :: 'sched
  pms_authChallenger :: 'ac

record ('lr, 'rr, 'ac) proxyTagService =
  pts_localTags :: "'lr service"
  pts_remoteTags :: "'rr service"
  pts_authChallenger :: 'ac

record ('lr, 'rr, 'lm, 'rm, 'sched, 'ac, 'c) proxiedRepository =
  blobStore :: "('lr, 'rr, 'sched, 'ac, 'c) proxyBlobStore"
  manifests :: "('lm, 'rm, 'sched, 'ac) proxyManifestStore"
  name :: string
  tags :: "('lr, 'rr, 'ac) proxyTagService"

definition Repository ::
  "('ns, 'ac, 'cm, 'cs, 'lr, 'rr, 'lm, 'rm) RepositoryEnv \<Rightarrow> ('ns, 'sched, 'ac, 'c) proxyingRegistry \<Rightarrow> string \<Rightarrow>
   error + ('lr, 'rr, 'lm, 'rm, 'sched, 'ac, 'c) proxiedRepository" where
  "Repository env pr named =
     (let c = authChallenger pr;
          tkopts = TokenHandlerOptions DefaultTransport (credentialStore env c)
                     [RepositoryScope named [] [''pull'']];
          tr = NewTransport DefaultTransport
                 [NewAuthorizer (challengeManager env c) [NewTokenHandlerWithOptions tkopts]]
      in case embeddedRepository env (embedded pr) named of
           Inl err \<Rightarrow> Inl err
         | Inr localRepo \<Rightarrow>
             (case localManifests env localRepo [SkipLayerVerification] of
                Inl err \<Rightarrow> Inl err
              | Inr lmanifests \<Rightarrow>
                  (case NewRepository env named (remoteURLString env (remoteURL pr)) tr of
                     Inl err \<Rightarrow> Inl err
                   | Inr remoteRepo \<Rightarrow>
                       (case remoteManifests env remoteRepo of
                          Inl err \<Rightarrow> Inl err
                        | Inr rmanifests \<Rightarrow>
                            Inr \<lparr>blobStore =
                                   \<lparr>pbs_localStore = BlobsOf localRepo,
                                    pbs_remoteStore = BlobsOf remoteRepo,
                                    pbs_scheduler = scheduler pr,
                                    pbs_repositoryName = named,
                                    pbs_authChallenger = authChallenger pr,
                                    pbs_setPublic = setBlobPublic (descriptorService pr)\<rparr>,
                                 manifests =
                                   \<lparr>pms_repositoryName = named,
                                    pms_localManifests = lmanifests,
                                    pms_remoteManifests = rmanifests,
                                    pms_scheduler = scheduler pr,
                                    pms_authChallenger = authChallenger pr\<rparr>,
                                 name = named,
                                 tags =
                                   \<lparr>pts_localTags = TagsOf localRepo,
                                    pts_remoteTags = TagsOf remoteRepo,
                                    pts_authChallenger = authChallenger pr\<rparr>\<rparr>))))"

subsection \<open>Collaborators for examples\<close>

text \<open>
  A storage for examples: the repository links and the blob files, as lists. Deleting from
  a repository removes its link, the vacuum removes the file.
\<close>

definition stubExpireEnv :: "((string \<times> digest) list \<times> digest list, string, string) ExpireEnv" where
  "stubExpireEnv =
     \<lparr>regRepository = (\<lambda>ref s. case ref of Canonical n d \<Rightarrow> Inr n | Tagged n t \<Rightarrow> Inr n),
      blobsDelete = (\<lambda>repo d (links, files). (None, (removeAll (repo, d) links, files))),
      vacuumRemoveBlob = (\<lambda>d (links, files). (None, (links, removeAll d files))),
      repoManifests = (\<lambda>repo s. Inr repo),
      manifestsDelete = (\<lambda>mf d (links, files). (None, (removeAll (mf, d) links, files))),
      typeName = (\<lambda>ref. case ref of Canonical n d \<Rightarrow> ''reference.canonicalReference''
                              | Tagged n t \<Rightarrow> ''reference.taggedReference'')\<rparr>"

text \<open>A startup in which every step succeeds.\<close>

definition stubStartupEnv :: "(unit, unit) StartupEnv" where
  "stubStartupEnv =
     \<lparr>urlParse = (\<lambda>raw. Inr \<lparr>Scheme = ''https'', Host = raw, Path = []\<rparr>),
      schedulerStart = None,
      configureAuth = (\<lambda>username password remote. Inr ()),
      NewSimpleManager = ()\<rparr>"

text \<open>
  A challenge manager for examples: a map from the endpoint to its challenges, and a ping
  with a fixed answer, which registers a bearer challenge when it succeeds.
\<close>

definition stubChallengeEnv :: "error option \<Rightarrow> (string \<rightharpoonup> Challenge list) ChallengeEnv" where
  "stubChallengeEnv answer =
     \<lparr>GetChallenges = (\<lambda>m u. Inr (case m (Scheme u @ ''://'' @ Host u @ Path u) of None \<Rightarrow> [] | Some cs \<Rightarrow> cs)),
      ping = (\<lambda>m endpoint versionHeader.
                case answer of
                  Some err \<Rightarrow> (Some err, m)
                | None \<Rightarrow> (None, m(endpoint \<mapsto> [\<lparr>challengeScheme = ''bearer'', Parameters = Map.empty\<rparr>]))),
      urlString = (\<lambda>u. Scheme u @ ''://'' @ Host u @ Path u),
      challengeHeader = ''Docker-Distribution-Api-Version''\<rparr>"

text \<open>Repositories for examples: a local one is its name, a remote one its address.\<close>

definition stubRepositoryEnv :: "(unit, nat, nat, string, string, string, string, string) RepositoryEnv" where
  "stubRepositoryEnv =
     \<lparr>credentialStore = (\<lambda>c. ''anonymous''),
      challengeManager = (\<lambda>c. c),
      embeddedRepository = (\<lambda>ns named. Inr named),
      localManifests = (\<lambda>localRepo options. Inr localRepo),
      NewRepository = (\<lambda>named baseURL tr. Inr (baseURL @ ''/v2/'' @ named)),
      remoteManifests = (\<lambda>remoteRepo. Inr remoteRepo),
      remoteURLString = (\<lambda>u. Scheme u @ ''://'' @ Host u @ Path u)\<rparr>"

section \<open>The local blob store (registry/storage)\<close>

text \<open>
  Modelled from the spec: the blob store of a repository in the local namespace (the linked
  blob store of registry/storage) is not among the source files; its test
  (registry/storage/blob\_test.go) is. The local store is content-addressable: a blob file
  is kept under its digest, once for all repositories, and a repository holds a blob by a
  link to it (a mount links an already stored blob into another repository without copying
  bytes). The descriptor cache is keyed by the digest and carries the annotations. The
  registry is one with automatic content discovery, the only one whose \<^verbatim>\<open>Create\<close> mounts
  on a digest alone.
\<close>

record Registry =
  blobFiles :: "digest \<rightharpoonup> bytes"
  layerLinks :: "(string \<times> digest) set"
  descriptorCache :: "digest \<rightharpoonup> Descriptor"

record BlobWriter =
  bw_repository :: string
  bw_written :: bytes

text \<open>
  Modelled from the spec: the descriptor of a stored blob is its digest, its size and the
  media type of the store.
\<close>

definition blobDescriptor :: "digest \<Rightarrow> bytes \<Rightarrow> Descriptor" where
  "blobDescriptor dgst content =
     \<lparr>MediaType = ''application/octet-stream'', Size = int (length content), Digest = dgst,
      Annotations = Map.empty\<rparr>"

text \<open>Modelled from the spec: \<^verbatim>\<open>Stat\<close> of a repository knows the blobs linked into it.\<close>

definition lbsStat :: "string \<Rightarrow> digest \<Rightarrow> Registry \<Rightarrow> error + Descriptor" where
  "lbsStat repo dgst reg =
     (if (repo, dgst) \<in> layerLinks reg
      then (case blobFiles reg dgst of
              None \<Rightarrow> Inl ErrBlobUnknown
            | Some content \<Rightarrow> Inr (blobDescriptor dgst content))
      else Inl ErrBlobUnknown)"

text \<open>Modelled from the spec: \<^verbatim>\<open>Open\<close> reads the bytes of a blob that \<^verbatim>\<open>Stat\<close> knows.\<close>

definition lbsOpen :: "string \<Rightarrow> digest \<Rightarrow> Registry \<Rightarrow> error + bytes" where
  "lbsOpen repo dgst reg =
     (case lbsStat repo dgst reg of
        Inl err \<Rightarrow> Inl err
      | Inr desc \<Rightarrow>
          (case blobFiles reg dgst of
             None \<Rightarrow> Inl ErrBlobUnknown
           | Some content \<Rightarrow> Inr content))"

text \<open>
  Modelled from the spec: a digest is marked as publicly obtainable when the descriptor
  cache knows it with the annotation \<open>public = true\<close>.
\<close>

definition isPublic :: "Registry \<Rightarrow> digest \<Rightarrow> bool" where
  "isPublic reg dgst =
     (case descriptorCache reg dgst of
        None \<Rightarrow> False
      | Some desc \<Rightarrow> Annotations desc ''public'' = Some ''true'')"

text \<open>
  Modelled from the spec: \<^verbatim>\<open>Create\<close>, with the digest of the mount option or without one.
  With a mount option the store consults its descriptor cache; if the digest is known and
  annotated \<open>public = true\<close>, it links the blob into the repository and fails with
  \<^verbatim>\<open>ErrBlobMounted\<close>, which carries the descriptor of the mounted blob. In every other
  case it starts an upload, as the test expects of a mount that did not happen.
\<close>

definition lbsCreate :: "string \<Rightarrow> digest option \<Rightarrow> Registry \<Rightarrow> (error + BlobWriter) \<times> Registry" where
  "lbsCreate repo mount reg =
     (case mount of
        None \<Rightarrow> (Inr \<lparr>bw_repository = repo, bw_written = []\<rparr>, reg)
      | Some dgst \<Rightarrow>
          (case blobFiles reg dgst of
             None \<Rightarrow> (Inr \<lparr>bw_repository = repo, bw_written = []\<rparr>, reg)
           | Some content \<Rightarrow>
               if isPublic reg dgst
               then (Inl (ErrBlobMounted (blobDescriptor dgst content)),
                     reg\<lparr>layerLinks := insert (repo, dgst) (layerLinks reg)\<rparr>)
               else (Inr \<lparr>bw_repository = repo, bw_written = []\<rparr>, reg)))"

definition bwWrite :: "bytes \<Rightarrow> BlobWriter \<Rightarrow> BlobWriter" where
  "bwWrite p bw = bw\<lparr>bw_written := bw_written bw @ p\<rparr>"

text \<open>
  Modelled from the spec: \<^verbatim>\<open>Commit\<close>. The bytes are written to the local store only if
  their computed digest equals the requested one; otherwise the write is discarded. The
  digest function is the argument \<open>FromBytes\<close>. A blob file that is already there under the
  digest stays; the repository of the upload gets its link.
\<close>

definition bwCommit ::
  "(bytes \<Rightarrow> digest) \<Rightarrow> Descriptor \<Rightarrow> BlobWriter \<Rightarrow> Registry \<Rightarrow> (error + Descriptor) \<times> Registry" where
  "bwCommit FromBytes provisional bw reg =
     (let canonical = FromBytes (bw_written bw)
      in if Digest provisional \<noteq> canonical then (Inl ErrBlobInvalidDigest, reg)
         else (Inr (blobDescriptor canonical (bw_written bw)),
               reg\<lparr>blobFiles :=
                      (case blobFiles reg canonical of
                         None \<Rightarrow> (blobFiles reg)(canonical \<mapsto> bw_written bw)
                       | Some present \<Rightarrow> blobFiles reg),
                    layerLinks := insert (bw_repository bw, canonical) (layerLinks reg)\<rparr>))"

text \<open>
  Modelled from the spec: \<^verbatim>\<open>Delete\<close> removes the blob from the repository, that is its
  link, and from the descriptor cache; a blob the repository does not hold is unknown.
\<close>

definition lbsDelete :: "string \<Rightarrow> digest \<Rightarrow> Registry \<Rightarrow> error option \<times> Registry" where
  "lbsDelete repo dgst reg =
     (case lbsStat repo dgst reg of
        Inl err \<Rightarrow> (Some err, reg)
      | Inr desc \<Rightarrow>
          (None, reg\<lparr>layerLinks := layerLinks reg - {(repo, dgst)},
                     descriptorCache := (descriptorCache reg)(dgst := None)\<rparr>))"

text \<open>
  The upload of the tests (\<^verbatim>\<open>createSource\<close>, \<^verbatim>\<open>simpleUpload\<close>): create an upload, copy the
  bytes into it, commit with a descriptor that has the digest of the bytes and nothing else.
\<close>

definition upload :: "(bytes \<Rightarrow> digest) \<Rightarrow> string \<Rightarrow> bytes \<Rightarrow> Registry \<Rightarrow> (error + Descriptor) \<times> Registry" where
  "upload FromBytes repo blob reg =
     (case lbsCreate repo None reg of
        (Inl err, reg1) \<Rightarrow> (Inl err, reg1)
      | (Inr wr, reg1) \<Rightarrow>
          bwCommit FromBytes (emptyDescriptor\<lparr>Digest := FromBytes blob\<rparr>) (bwWrite blob wr) reg1)"

text \<open>
  A digest function for examples: the SHA-256 digest of the empty blob, and for the other
  blobs a digest that tells their length only.
\<close>

definition digestSha256Empty :: digest where
  "digestSha256Empty = ''sha256:e3b0c44298fc1c149afbf4c8996fb92427ae41e4649b934ca495991b7852b855''"

definition stubDigest :: "bytes \<Rightarrow> digest" where
  "stubDigest blob = (if blob = [] then digestSha256Empty else ''sha256:'' @ replicate (length blob) CHR ''a'')"

definition emptyRegistry :: Registry where
  "emptyRegistry = \<lparr>blobFiles = Map.empty, layerLinks = {}, descriptorCache = Map.empty\<rparr>"

section \<open>Properties of the blob handlers\<close>

text \<open>
  C1. A blob GET whose digest the repository does not know (\<^verbatim>\<open>Stat\<close> answers
  \<^verbatim>\<open>ErrBlobUnknown\<close>) makes the handler call \<^verbatim>\<open>Create\<close> with the mount option for that
  digest. The handler goes on to \<^verbatim>\<open>ServeBlob\<close> exactly when that call failed with an error
  that is, or wraps, \<^verbatim>\<open>ErrBlobMounted\<close>; the response and the store are then the ones
  \<^verbatim>\<open>ServeBlob\<close> leaves. For every other outcome (another error, or a blob writer) nothing
  is served: no call to \<^verbatim>\<open>ServeBlob\<close>, the response untouched, and the one error
  \<^verbatim>\<open>BlobUnknown\<close> with the digest as its detail appended to the context.
\<close>

theorem GetBlob_automount:
  assumes stat: "bsStat (Blobs (bhContext bh)) (bhDigest bh) (store wld) = (Inl ErrBlobUnknown, s1)"
    and create: "bsCreate (Blobs (bhContext bh)) [WithMount (bhDigest bh), WithoutUpload] s1 = (cr, s2)"
    and serve: "bsServeBlob (Blobs (bhContext bh)) w r (bhDigest bh) s2 = ((sv, w3), s3)"
    and res: "GetBlob bh w r wld = (w', wld')"
  shows "calls wld' = calls wld @ [CallStat (bhDigest bh), CallCreate [WithMount (bhDigest bh), WithoutUpload]]
                        @ (if mountSignalled cr then [CallServeBlob (bhDigest bh)] else [])
       \<and> (if mountSignalled cr
          then w' = w3 \<and> store wld' = s3 \<and>
               Errors wld' = Errors wld @ (case sv of None \<Rightarrow> [] | Some e \<Rightarrow> [Coded ErrorCodeUnknown (ErrorDetail e)])
          else w' = w \<and> store wld' = s2 \<and>
               Errors wld' = Errors wld @ [Coded ErrorCodeBlobUnknown (DigestDetail (bhDigest bh))])"
  using assms
  by (auto simp: GetBlob_def Stat_call_def Create_call_def serveBlob_def ServeBlob_call_def appendError_def
      mountSignalled_def split: sum.splits option.splits prod.splits)

theorem GetBlob_automount_witness:
  "GetBlob \<lparr>bhContext = \<lparr>readOnly = False,
        Blobs = stubStore (Inl ErrBlobUnknown) (Inl (Wrapped ''mount'' (ErrBlobMounted emptyDescriptor))) None None\<rparr>,
        bhDigest = ''sha256:def''\<rparr>
      \<lparr>header = Map.empty, status = None, body = []\<rparr>
      \<lparr>Method = ''GET'', URL = \<lparr>Scheme = [], Host = [], Path = ''/v2/bar/blobs/sha256:def''\<rparr>\<rparr>
      \<lparr>Errors = [], store = 0, calls = []\<rparr>
   = (\<lparr>header = Map.empty, status = Some 200, body = []\<rparr>,
      \<lparr>Errors = [], store = 3,
       calls = [CallStat ''sha256:def'', CallCreate [WithMount ''sha256:def'', WithoutUpload],
                CallServeBlob ''sha256:def'']\<rparr>)
   \<and> GetBlob \<lparr>bhContext = \<lparr>readOnly = False,
        Blobs = stubStore (Inl ErrBlobUnknown) (Inr ()) None None\<rparr>,
        bhDigest = ''sha256:def''\<rparr>
      \<lparr>header = Map.empty, status = None, body = []\<rparr>
      \<lparr>Method = ''GET'', URL = \<lparr>Scheme = [], Host = [], Path = ''/v2/bar/blobs/sha256:def''\<rparr>\<rparr>
      \<lparr>Errors = [], store = 0, calls = []\<rparr>
   = (\<lparr>header = Map.empty, status = None, body = []\<rparr>,
      \<lparr>Errors = [Coded ErrorCodeBlobUnknown (DigestDetail ''sha256:def'')], store = 2,
       calls = [CallStat ''sha256:def'', CallCreate [WithMount ''sha256:def'', WithoutUpload]]\<rparr>)"
proof -
  let ?bh = "\<lambda>cr. \<lparr>bhContext = \<lparr>readOnly = False,
        Blobs = stubStore (Inl ErrBlobUnknown) cr None None\<rparr>, bhDigest = ''sha256:def''\<rparr>"
  let ?w = "\<lparr>header = Map.empty, status = None, body = []\<rparr>"
  let ?r = "\<lparr>Method = ''GET'', URL = \<lparr>Scheme = [], Host = [], Path = ''/v2/bar/blobs/sha256:def''\<rparr>\<rparr>"
  let ?wld = "\<lparr>Errors = [], store = 0::nat, calls = []\<rparr>"
  let ?mounted = "Inl (Wrapped ''mount'' (ErrBlobMounted emptyDescriptor))"
  have a: "\<And>cr. bsStat (Blobs (bhContext (?bh cr))) (bhDigest (?bh cr)) (store ?wld) = (Inl ErrBlobUnknown, 1)"
    by (simp add: stubStore_def)
  have b: "\<And>cr. bsCreate (Blobs (bhContext (?bh cr))) [WithMount (bhDigest (?bh cr)), WithoutUpload] 1 = (cr, 2)"
    by (simp add: stubStore_def)
  have c: "\<And>cr. bsServeBlob (Blobs (bhContext (?bh cr))) ?w ?r (bhDigest (?bh cr)) 2
             = ((None, ?w\<lparr>status := Some 200\<rparr>), 3)"
    by (simp add: stubStore_def)
  obtain w1 wld1 where r1: "GetBlob (?bh ?mounted) ?w ?r ?wld = (w1, wld1)"
    by (cases "GetBlob (?bh ?mounted) ?w ?r ?wld")
  obtain w2 wld2 where r2: "GetBlob (?bh (Inr ())) ?w ?r ?wld = (w2, wld2)"
    by (cases "GetBlob (?bh (Inr ())) ?w ?r ?wld")
  from GetBlob_automount [OF a b c r1]
  have "w1 = ?w\<lparr>status := Some 200\<rparr> \<and> store wld1 = 3 \<and> Errors wld1 = []
     \<and> calls wld1 = [CallStat ''sha256:def'', CallCreate [WithMount ''sha256:def'', WithoutUpload],
                CallServeBlob ''sha256:def'']"
    by (simp add: mountSignalled_def)
  moreover from GetBlob_automount [OF a b c r2]
  have "w2 = ?w \<and> store wld2 = 2
     \<and> Errors wld2 = [Coded ErrorCodeBlobUnknown (DigestDetail ''sha256:def'')]
     \<and> calls wld2 = [CallStat ''sha256:def'', CallCreate [WithMount ''sha256:def'', WithoutUpload]]"
    by (simp add: mountSignalled_def)
  ultimately show ?thesis unfolding r1 r2 by (cases wld1; cases wld2) simp
qed

text \<open>
  C9. With a digest, the dispatcher returns a method handler that maps GET and HEAD to the
  same \<^verbatim>\<open>GetBlob\<close> handler, that has an entry for DELETE (the \<^verbatim>\<open>DeleteBlob\<close> handler)
  exactly when the context is not read-only, and that has no other entry. Without one
  (\<^verbatim>\<open>getDigest\<close> failed, whatever the error), it returns a handler that appends
  \<^verbatim>\<open>DigestInvalid\<close>, with the error as its detail, to the context for every response writer
  and request, hence for every method.
\<close>

theorem blobDispatcher_methods:
  "(dgst = Inr d \<longrightarrow>
      (\<exists>m. blobDispatcher notAvail ctx dgst = MethodHandler m
         \<and> m MethodGet = Some (GetBlob \<lparr>bhContext = ctx, bhDigest = d\<rparr>)
         \<and> m MethodHead = m MethodGet
         \<and> (m MethodDelete \<noteq> None) = (\<not> readOnly ctx)
         \<and> (\<not> readOnly ctx \<longrightarrow> m MethodDelete = Some (DeleteBlob \<lparr>bhContext = ctx, bhDigest = d\<rparr>))
         \<and> dom m \<subseteq> {MethodGet, MethodHead, MethodDelete}))
   \<and> (dgst = Inl err \<longrightarrow>
      (\<exists>h. blobDispatcher notAvail ctx dgst = HandlerFunc h
         \<and> (\<forall>w r wld. h w r wld = (w, wld\<lparr>Errors := Errors wld @ [Coded ErrorCodeDigestInvalid (ErrorDetail err)]\<rparr>))))"
  by (auto simp: blobDispatcher_def Let_def MethodGet_def MethodHead_def MethodDelete_def
      digestInvalid_def appendError_def split: if_splits)

theorem blobDispatcher_methods_witness:
  "(\<exists>m. blobDispatcher (ErrorString ''digest not available'')
           \<lparr>readOnly = False, Blobs = stubStore (Inl ErrBlobUnknown) (Inr ()) None None\<rparr> (Inr ''sha256:def'')
         = MethodHandler m \<and> m MethodHead = m MethodGet \<and> m MethodDelete \<noteq> None)
   \<and> (\<exists>m. blobDispatcher (ErrorString ''digest not available'')
           \<lparr>readOnly = True, Blobs = stubStore (Inl ErrBlobUnknown) (Inr ()) None None\<rparr> (Inr ''sha256:def'')
         = MethodHandler m \<and> m MethodHead = m MethodGet \<and> m MethodDelete = None)
   \<and> (\<exists>h. blobDispatcher (ErrorString ''digest not available'')
           \<lparr>readOnly = False, Blobs = stubStore (Inl ErrBlobUnknown) (Inr ()) None None\<rparr>
           (Inl (ErrorString ''invalid checksum digest format''))
         = HandlerFunc h
       \<and> h \<lparr>header = Map.empty, status = None, body = []\<rparr> \<lparr>Method = ''PUT'', URL = \<lparr>Scheme = [], Host = [], Path = []\<rparr>\<rparr>
            \<lparr>Errors = [], store = 0, calls = []\<rparr>
         = (\<lparr>header = Map.empty, status = None, body = []\<rparr>,
            \<lparr>Errors = [Coded ErrorCodeDigestInvalid (ErrorDetail (ErrorString ''invalid checksum digest format''))],
             store = 0, calls = []\<rparr>))"
proof -
  let ?na = "ErrorString ''digest not available''"
  let ?ctx = "\<lambda>ro. \<lparr>readOnly = ro, Blobs = stubStore (Inl ErrBlobUnknown) (Inr ()) None None\<rparr>"
  from blobDispatcher_methods [of "Inr ''sha256:def''" "''sha256:def''" ?na "?ctx False"]
  have "\<exists>m. blobDispatcher ?na (?ctx False) (Inr ''sha256:def'') = MethodHandler m
          \<and> m MethodHead = m MethodGet \<and> m MethodDelete \<noteq> None"
    by auto
  moreover from blobDispatcher_methods [of "Inr ''sha256:def''" "''sha256:def''" ?na "?ctx True"]
  have "\<exists>m. blobDispatcher ?na (?ctx True) (Inr ''sha256:def'') = MethodHandler m
          \<and> m MethodHead = m MethodGet \<and> m MethodDelete = None"
    by auto
  moreover from blobDispatcher_methods [of "Inl (ErrorString ''invalid checksum digest format'')" _ ?na "?ctx False"
      "ErrorString ''invalid checksum digest format''"]
  have "\<exists>h. blobDispatcher ?na (?ctx False) (Inl (ErrorString ''invalid checksum digest format'')) = HandlerFunc h
       \<and> h \<lparr>header = Map.empty, status = None, body = []\<rparr> \<lparr>Method = ''PUT'', URL = \<lparr>Scheme = [], Host = [], Path = []\<rparr>\<rparr>
            \<lparr>Errors = [], store = 0, calls = []\<rparr>
         = (\<lparr>header = Map.empty, status = None, body = []\<rparr>,
            \<lparr>Errors = [Coded ErrorCodeDigestInvalid (ErrorDetail (ErrorString ''invalid checksum digest format''))],
             store = 0, calls = []\<rparr>)"
    by auto
  ultimately show ?thesis by blast
qed

section \<open>Properties of the proxying registry\<close>

subsection \<open>setPublic\<close>

text \<open>
  C10. Let the descriptor service answer \<^verbatim>\<open>Stat\<close> with a descriptor, or with
  \<^verbatim>\<open>ErrBlobUnknown\<close>, in which case \<^verbatim>\<open>setPublic\<close> works on the empty descriptor. If the
  descriptor has an annotation under the key \<open>public\<close>, whatever its value, the call
  returns false and leaves the cache as it was. Otherwise it calls \<^verbatim>\<open>SetDescriptor\<close> with
  the descriptor whose annotations map is exactly \<open>public = true\<close>, replacing the
  annotations it had, and returns true when that call succeeds. Once the cache answers
  with the descriptor stored, a second call returns false and leaves the cache as the
  first call left it.
\<close>

theorem setPublic_idempotent:
  assumes "dsStat ds c dgst = Inr desc \<or> (dsStat ds c dgst = Inl ErrBlobUnknown \<and> desc = emptyDescriptor)"
  shows "(Annotations desc ''public'' \<noteq> None \<longrightarrow> setPublic ds dgst c = ((False, None), c))
       \<and> (Annotations desc ''public'' = None \<longrightarrow>
            (\<exists>err c'. dsSetDescriptor ds c dgst (desc\<lparr>Annotations := [''public'' \<mapsto> ''true'']\<rparr>) = (err, c')
               \<and> setPublic ds dgst c = ((err = None, err), c')
               \<and> (err = None \<and> dsStat ds c' dgst = Inr (desc\<lparr>Annotations := [''public'' \<mapsto> ''true'']\<rparr>)
                    \<longrightarrow> setPublic ds dgst c' = ((False, None), c'))))"
  using assms
  by (cases "dsSetDescriptor ds c dgst (desc\<lparr>Annotations := [''public'' \<mapsto> ''true'']\<rparr>)")
     (auto simp: setPublic_def split: option.splits sum.splits prod.splits)

theorem setPublic_idempotent_witness:
  "setPublic memoryCache ''sha256:abc''
       [''sha256:abc'' \<mapsto> \<lparr>MediaType = ''application/octet-stream'', Size = 3, Digest = ''sha256:abc'',
                                Annotations = [''public'' \<mapsto> ''false'']\<rparr>]
     = ((False, None),
        [''sha256:abc'' \<mapsto> \<lparr>MediaType = ''application/octet-stream'', Size = 3, Digest = ''sha256:abc'',
                                Annotations = [''public'' \<mapsto> ''false'']\<rparr>])
   \<and> setPublic memoryCache ''sha256:abc''
       [''sha256:abc'' \<mapsto> \<lparr>MediaType = ''application/octet-stream'', Size = 3, Digest = ''sha256:abc'',
                                Annotations = [''org.example.kind'' \<mapsto> ''layer'']\<rparr>]
     = ((True, None),
        [''sha256:abc'' \<mapsto> \<lparr>MediaType = ''application/octet-stream'', Size = 3, Digest = ''sha256:abc'',
                                Annotations = [''public'' \<mapsto> ''true'']\<rparr>])
   \<and> setPublic memoryCache ''sha256:abc''
       [''sha256:abc'' \<mapsto> \<lparr>MediaType = ''application/octet-stream'', Size = 3, Digest = ''sha256:abc'',
                                Annotations = [''public'' \<mapsto> ''true'']\<rparr>]
     = ((False, None),
        [''sha256:abc'' \<mapsto> \<lparr>MediaType = ''application/octet-stream'', Size = 3, Digest = ''sha256:abc'',
                                Annotations = [''public'' \<mapsto> ''true'']\<rparr>])
   \<and> setPublic memoryCache ''sha256:abc'' Map.empty
     = ((True, None), [''sha256:abc'' \<mapsto> emptyDescriptor\<lparr>Annotations := [''public'' \<mapsto> ''true'']\<rparr>])"
proof -
  let ?d = "\<lambda>a. \<lparr>MediaType = ''application/octet-stream'', Size = 3, Digest = ''sha256:abc'', Annotations = a\<rparr>"
  let ?c = "\<lambda>a. [''sha256:abc'' \<mapsto> ?d a]"
  have s: "\<And>a. dsStat memoryCache (?c a) ''sha256:abc'' = Inr (?d a)
             \<or> (dsStat memoryCache (?c a) ''sha256:abc'' = Inl ErrBlobUnknown \<and> ?d a = emptyDescriptor)"
    by (simp add: memoryCache_def)
  have e: "dsStat memoryCache Map.empty ''sha256:abc'' = Inr emptyDescriptor
             \<or> (dsStat memoryCache Map.empty ''sha256:abc'' = Inl ErrBlobUnknown \<and> emptyDescriptor = emptyDescriptor)"
    by (simp add: memoryCache_def)
  have w: "\<And>c desc. dsSetDescriptor memoryCache c ''sha256:abc'' desc = (None, c(''sha256:abc'' \<mapsto> desc))"
    by (simp add: memoryCache_def)
  from setPublic_idempotent [OF s [of "[''public'' \<mapsto> ''false'']"]]
  have 1: "setPublic memoryCache ''sha256:abc'' (?c [''public'' \<mapsto> ''false''])
             = ((False, None), ?c [''public'' \<mapsto> ''false''])"
    by simp
  from setPublic_idempotent [OF s [of "[''org.example.kind'' \<mapsto> ''layer'']"]]
  have 2: "setPublic memoryCache ''sha256:abc'' (?c [''org.example.kind'' \<mapsto> ''layer''])
             = ((True, None), ?c [''public'' \<mapsto> ''true''])
         \<and> setPublic memoryCache ''sha256:abc'' (?c [''public'' \<mapsto> ''true''])
             = ((False, None), ?c [''public'' \<mapsto> ''true''])"
    by (simp add: w) (simp add: memoryCache_def)
  from setPublic_idempotent [OF e]
  have 3: "setPublic memoryCache ''sha256:abc'' Map.empty
     = ((True, None), [''sha256:abc'' \<mapsto> emptyDescriptor\<lparr>Annotations := [''public'' \<mapsto> ''true'']\<rparr>])"
    by (simp add: w emptyDescriptor_def)
  from 1 2 3 show ?thesis by simp
qed

subsection \<open>The startup scan\<close>

lemma reliable_memoryCache: "reliable memoryCache"
  by (simp add: reliable_def memoryCache_def split: option.splits)

lemma setPublic_reliable:
  assumes "reliable ds"
  shows "setPublic ds dgst c =
     (case Annotations (cached ds c dgst) ''public'' of
        None \<Rightarrow> ((True, None), snd (dsSetDescriptor ds c dgst ((cached ds c dgst)\<lparr>Annotations := [''public'' \<mapsto> ''true'']\<rparr>)))
      | Some v \<Rightarrow> ((False, None), c))"
proof -
  from assms have a: "\<And>e. dsStat ds c dgst = Inl e \<Longrightarrow> e = ErrBlobUnknown"
    and b: "\<And>desc. fst (dsSetDescriptor ds c dgst desc) = None"
    unfolding reliable_def by blast+
  show ?thesis
    using a b [of "(cached ds c dgst)\<lparr>Annotations := [''public'' \<mapsto> ''true'']\<rparr>"]
    by (cases "dsStat ds c dgst")
       (auto simp: setPublic_def cached_def split: option.splits prod.splits)
qed

lemma setPublic_stat:
  assumes "reliable ds"
  shows "dsStat ds (snd (setPublic ds dgst c)) other = (if other = dgst then marked ds c dgst else dsStat ds c other)"
proof -
  from assms have c: "\<And>desc. dsStat ds (snd (dsSetDescriptor ds c dgst desc)) dgst = Inr desc"
    and d: "\<And>desc. other \<noteq> dgst \<Longrightarrow> dsStat ds (snd (dsSetDescriptor ds c dgst desc)) other = dsStat ds c other"
    unfolding reliable_def by blast+
  show ?thesis
    by (simp add: setPublic_reliable [OF assms] marked_def c d split: option.splits)
qed

lemma marked_marked:
  assumes "dsStat ds c' dgst = marked ds c dgst"
  shows "marked ds c' dgst = marked ds c dgst"
  using assms by (auto simp: marked_def cached_def split: option.splits sum.splits)

lemma marked_cong:
  assumes "dsStat ds c' dgst = dsStat ds c dgst"
  shows "marked ds c' dgst = marked ds c dgst"
proof -
  from assms have "cached ds c' dgst = cached ds c dgst"
    by (simp add: cached_def)
  with assms show ?thesis
    by (simp add: marked_def split: option.splits)
qed

lemma Enumerate_scan:
  assumes "reliable ds"
  shows "fst (Enumerate blobs (scanBlob ds) st) = None
       \<and> blobCount (snd (Enumerate blobs (scanBlob ds) st)) = blobCount st + int (length blobs)
       \<and> (\<forall>dgst. dsStat ds (cache (snd (Enumerate blobs (scanBlob ds) st))) dgst
            = (if dgst \<in> set blobs then marked ds (cache st) dgst else dsStat ds (cache st) dgst))"
proof (induction blobs arbitrary: st)
  case Nil
  show ?case by simp
next
  case (Cons b blobs)
  have "\<exists>st1. scanBlob ds b st = (None, st1) \<and> cache st1 = snd (setPublic ds b (cache st))
           \<and> blobCount st1 = blobCount st + 1"
    by (cases "Annotations (cached ds (cache st) b) ''public''")
       (simp_all add: scanBlob_def setPublic_reliable [OF assms])
  then obtain st1 where step: "scanBlob ds b st = (None, st1)"
    and c1: "cache st1 = snd (setPublic ds b (cache st))"
    and n1: "blobCount st1 = blobCount st + 1"
    by blast
  have e: "Enumerate (b # blobs) (scanBlob ds) st = Enumerate blobs (scanBlob ds) st1"
    by (simp add: step)
  have st1: "\<And>dgst. dsStat ds (cache st1) dgst = (if dgst = b then marked ds (cache st) b else dsStat ds (cache st) dgst)"
    by (simp add: c1 setPublic_stat [OF assms])
  have m1: "\<And>dgst. marked ds (cache st1) dgst = marked ds (cache st) dgst"
  proof -
    fix dgst
    show "marked ds (cache st1) dgst = marked ds (cache st) dgst"
    proof (cases "dgst = b")
      case True
      have "dsStat ds (cache st1) b = marked ds (cache st) b"
        by (simp add: st1)
      then have "marked ds (cache st1) b = marked ds (cache st) b"
        by (rule marked_marked)
      with True show ?thesis by simp
    next
      case False
      then have "dsStat ds (cache st1) dgst = dsStat ds (cache st) dgst"
        by (simp add: st1)
      then show ?thesis by (rule marked_cong)
    qed
  qed
  from Cons.IH [of st1]
  have ih: "fst (Enumerate blobs (scanBlob ds) st1) = None"
    "blobCount (snd (Enumerate blobs (scanBlob ds) st1)) = blobCount st1 + int (length blobs)"
    "\<And>dgst. dsStat ds (cache (snd (Enumerate blobs (scanBlob ds) st1))) dgst
        = (if dgst \<in> set blobs then marked ds (cache st1) dgst else dsStat ds (cache st1) dgst)"
    by blast+
  have "\<And>dgst. dsStat ds (cache (snd (Enumerate blobs (scanBlob ds) st1))) dgst
        = (if dgst \<in> set (b # blobs) then marked ds (cache st) dgst else dsStat ds (cache st) dgst)"
    unfolding ih(3) m1 st1 by simp
  with ih(1) ih(2) show ?case
    unfolding e by (simp add: n1)
qed

lemma publicMeansTrue_empty: "publicMeansTrue memoryCache Map.empty"
  by (simp add: publicMeansTrue_def memoryCache_def)

lemma marked_eligible:
  assumes inv: "publicMeansTrue ds c"
    and m: "dsStat ds c' dgst = marked ds c dgst"
  shows "eligible ds c' dgst"
proof (cases "Annotations (cached ds c dgst) ''public''")
  case None
  with m show ?thesis
    by (simp add: marked_def eligible_def)
next
  case (Some v)
  then obtain desc where d: "dsStat ds c dgst = Inr desc" and a: "Annotations desc ''public'' = Some v"
    by (cases "dsStat ds c dgst") (auto simp: cached_def emptyDescriptor_def)
  from inv d a have "v = ''true''"
    unfolding publicMeansTrue_def by blast
  with Some m d a show ?thesis
    by (simp add: marked_def eligible_def)
qed

lemma setPublic_publicMeansTrue:
  assumes rel: "reliable ds" and inv: "publicMeansTrue ds c"
  shows "publicMeansTrue ds (snd (setPublic ds dgst c))"
  unfolding publicMeansTrue_def
proof (intro allI impI)
  fix other desc v
  assume s: "dsStat ds (snd (setPublic ds dgst c)) other = Inr desc"
    and a: "Annotations desc ''public'' = Some v"
  show "v = ''true''"
  proof (cases "other = dgst")
    case True
    with s have "dsStat ds (snd (setPublic ds dgst c)) dgst = marked ds c dgst"
      by (simp add: setPublic_stat [OF rel])
    from marked_eligible [OF inv this] s a True show ?thesis
      by (simp add: eligible_def)
  next
    case False
    with s have "dsStat ds c other = Inr desc"
      by (simp add: setPublic_stat [OF rel])
    with inv a show ?thesis
      unfolding publicMeansTrue_def by blast
  qed
qed

lemma scan_marks_public:
  assumes rel: "reliable ds" and inv: "publicMeansTrue ds c" and b: "dgst \<in> set blobs"
  shows "eligible ds (cache (setBlobsPublic ds blobs c)) dgst"
proof -
  from Enumerate_scan [OF rel, of blobs "\<lparr>cache = c, blobCount = 0, blobTaggedCount = 0\<rparr>"] b
  have "dsStat ds (cache (setBlobsPublic ds blobs c)) dgst = marked ds c dgst"
    by (simp add: setBlobsPublic_def)
  with inv show ?thesis
    by (rule marked_eligible)
qed



text \<open>
  What the scan is for, on the local blob store whose descriptor cache it has worked on:
  \<^verbatim>\<open>Create\<close> with the mount option, in any repository, mounts every scanned blob that the
  store holds.
\<close>

lemma isPublic_eligible: "isPublic reg dgst = eligible memoryCache (descriptorCache reg) dgst"
  by (simp add: isPublic_def eligible_def memoryCache_def split: option.splits)

lemma scanned_blob_mounts:
  assumes inv: "publicMeansTrue memoryCache (descriptorCache reg)"
    and b: "dgst \<in> set blobs"
    and f: "blobFiles reg dgst = Some content"
  shows "fst (lbsCreate R (Some dgst)
                (reg\<lparr>descriptorCache := cache (setBlobsPublic memoryCache blobs (descriptorCache reg))\<rparr>))
           = Inl (ErrBlobMounted (blobDescriptor dgst content))"
proof -
  let ?reg = "reg\<lparr>descriptorCache := cache (setBlobsPublic memoryCache blobs (descriptorCache reg))\<rparr>"
  from scan_marks_public [OF reliable_memoryCache inv b]
  have "isPublic ?reg dgst"
    by (simp add: isPublic_eligible)
  with f show ?thesis
    by (simp add: lbsCreate_def)
qed

subsection \<open>tryEstablishChallenges\<close>

text \<open>
  C3. Let the challenge manager answer \<^verbatim>\<open>GetChallenges\<close> for the upstream URL with the
  path \<^verbatim>\<open>/v2/\<close>. If the challenges it holds are not empty, the call returns no error,
  pings nothing and leaves the challenger as it is. Otherwise it pings that endpoint, once,
  and returns what the ping returns: its error, unchanged, or none.
\<close>

theorem tryEstablishChallenges_cases:
  assumes known: "GetChallenges env (rac_cm r) ((rac_remoteURL r)\<lparr>Path := ''/v2/''\<rparr>) = Inr challenges"
  shows "(challenges \<noteq> [] \<longrightarrow> tryEstablishChallenges env r = (None, r, []))
       \<and> (challenges = [] \<longrightarrow>
            (\<exists>err m'. ping env (rac_cm r) (urlString env ((rac_remoteURL r)\<lparr>Path := ''/v2/''\<rparr>)) (challengeHeader env)
                        = (err, m')
                \<and> tryEstablishChallenges env r
                        = (err, r\<lparr>rac_cm := m'\<rparr>, [urlString env ((rac_remoteURL r)\<lparr>Path := ''/v2/''\<rparr>)])))"
  using known
  by (cases "ping env (rac_cm r) (urlString env ((rac_remoteURL r)\<lparr>Path := ''/v2/''\<rparr>)) (challengeHeader env)")
     (auto simp: tryEstablishChallenges_def Let_def split: option.splits)

theorem tryEstablishChallenges_cases_witness:
  "tryEstablishChallenges (stubChallengeEnv None)
      \<lparr>rac_remoteURL = \<lparr>Scheme = ''https'', Host = ''upstream'', Path = []\<rparr>,
       rac_cm = [''https://upstream/v2/'' \<mapsto> [\<lparr>challengeScheme = ''basic'', Parameters = Map.empty\<rparr>]],
       rac_cs = ()\<rparr>
     = (None,
        \<lparr>rac_remoteURL = \<lparr>Scheme = ''https'', Host = ''upstream'', Path = []\<rparr>,
         rac_cm = [''https://upstream/v2/'' \<mapsto> [\<lparr>challengeScheme = ''basic'', Parameters = Map.empty\<rparr>]],
         rac_cs = ()\<rparr>,
        [])
   \<and> tryEstablishChallenges (stubChallengeEnv (Some (ErrorString ''connection refused'')))
      \<lparr>rac_remoteURL = \<lparr>Scheme = ''https'', Host = ''upstream'', Path = []\<rparr>, rac_cm = Map.empty, rac_cs = ()\<rparr>
     = (Some (ErrorString ''connection refused''),
        \<lparr>rac_remoteURL = \<lparr>Scheme = ''https'', Host = ''upstream'', Path = []\<rparr>, rac_cm = Map.empty, rac_cs = ()\<rparr>,
        [''https://upstream/v2/''])"
proof -
  let ?u = "\<lparr>Scheme = ''https'', Host = ''upstream'', Path = []\<rparr>"
  let ?basic = "[\<lparr>challengeScheme = ''basic'', Parameters = Map.empty\<rparr>]"
  let ?r1 = "\<lparr>rac_remoteURL = ?u, rac_cm = [''https://upstream/v2/'' \<mapsto> ?basic], rac_cs = ()\<rparr>"
  let ?r2 = "\<lparr>rac_remoteURL = ?u, rac_cm = Map.empty :: string \<rightharpoonup> Challenge list, rac_cs = ()\<rparr>"
  let ?failing = "stubChallengeEnv (Some (ErrorString ''connection refused''))"
  have k1: "GetChallenges (stubChallengeEnv None) (rac_cm ?r1) ((rac_remoteURL ?r1)\<lparr>Path := ''/v2/''\<rparr>) = Inr ?basic"
    by (simp add: stubChallengeEnv_def)
  have k2: "GetChallenges ?failing (rac_cm ?r2) ((rac_remoteURL ?r2)\<lparr>Path := ''/v2/''\<rparr>) = Inr []"
    by (simp add: stubChallengeEnv_def)
  from tryEstablishChallenges_cases [OF k1]
  have 1: "tryEstablishChallenges (stubChallengeEnv None) ?r1 = (None, ?r1, [])"
    by simp
  from tryEstablishChallenges_cases [OF k2]
  have 2: "tryEstablishChallenges ?failing ?r2 = (Some (ErrorString ''connection refused''), ?r2, [''https://upstream/v2/''])"
    by (simp add: stubChallengeEnv_def)
  from 1 2 show ?thesis by simp
qed

subsection \<open>The expiry callbacks\<close>

text \<open>
  C4. The callbacks that the constructor registers with the scheduler: for a reference that
  is not canonical, each returns an error, calls for no deletion and leaves the storage as
  it is. For a canonical reference whose repository the registry returns, the blob callback
  deletes the digest from the blob store of that repository and then, with the vacuum, from
  the backing storage, and the manifest callback deletes the digest from the manifest
  service of that repository; each returns no error when the deletions succeed.
\<close>

theorem expiry_callbacks:
  assumes start: "NewRegistryPullThroughCache env xenv registry config ds = (Inr pr, steps)"
  shows "(ref = Tagged n t \<longrightarrow>
            onBlobExpire (scheduler pr) ref s
              = ((Some (ErrorString (''unexpected reference type : '' @ typeName xenv ref)), []), s)
          \<and> onManifestExpire (scheduler pr) ref s
              = ((Some (ErrorString (''unexpected reference type : '' @ typeName xenv ref)), []), s))
       \<and> (ref = Canonical n dgst \<and> regRepository xenv ref s = Inr repo \<longrightarrow>
            (blobsDelete xenv repo dgst s = (None, s1) \<and> vacuumRemoveBlob xenv dgst s1 = (None, s2) \<longrightarrow>
               onBlobExpire (scheduler pr) ref s = ((None, [BlobsDelete repo dgst, RemoveBlob dgst]), s2))
          \<and> (repoManifests xenv repo s = Inr mfs \<and> manifestsDelete xenv mfs dgst s = (None, s3) \<longrightarrow>
               onManifestExpire (scheduler pr) ref s = ((None, [ManifestsDelete mfs dgst]), s3)))"
proof -
  from start have "onBlobExpire (scheduler pr) = OnBlobExpire_callback xenv"
    and "onManifestExpire (scheduler pr) = OnManifestExpire_callback xenv"
    by (auto simp: NewRegistryPullThroughCache_def Let_def split: sum.splits option.splits)
  then show ?thesis
    by (auto simp: OnBlobExpire_callback_def OnManifestExpire_callback_def)
qed

theorem expiry_callbacks_witness:
  "onBlobExpire (scheduler
       \<lparr>embedded = (),
        scheduler = \<lparr>pathToStateFile = ''/scheduler-state.json'',
                     onBlobExpire = OnBlobExpire_callback stubExpireEnv,
                     onManifestExpire = OnManifestExpire_callback stubExpireEnv\<rparr>,
        remoteURL = \<lparr>Scheme = ''https'', Host = ''upstream'', Path = []\<rparr>,
        authChallenger = \<lparr>rac_remoteURL = \<lparr>Scheme = ''https'', Host = ''upstream'', Path = []\<rparr>,
                           rac_cm = (), rac_cs = ()\<rparr>,
        descriptorService = memoryCache\<rparr>)
     (Canonical ''foo'' ''sha256:abc'')
     ([(''foo'', ''sha256:abc''), (''bar'', ''sha256:abc'')], [''sha256:abc''])
   = ((None, [BlobsDelete ''foo'' ''sha256:abc'', RemoveBlob ''sha256:abc'']),
      ([(''bar'', ''sha256:abc'')], []))
   \<and> onManifestExpire (scheduler
       \<lparr>embedded = (),
        scheduler = \<lparr>pathToStateFile = ''/scheduler-state.json'',
                     onBlobExpire = OnBlobExpire_callback stubExpireEnv,
                     onManifestExpire = OnManifestExpire_callback stubExpireEnv\<rparr>,
        remoteURL = \<lparr>Scheme = ''https'', Host = ''upstream'', Path = []\<rparr>,
        authChallenger = \<lparr>rac_remoteURL = \<lparr>Scheme = ''https'', Host = ''upstream'', Path = []\<rparr>,
                           rac_cm = (), rac_cs = ()\<rparr>,
        descriptorService = memoryCache\<rparr>)
     (Canonical ''foo'' ''sha256:abc'')
     ([(''foo'', ''sha256:abc''), (''bar'', ''sha256:abc'')], [''sha256:abc''])
   = ((None, [ManifestsDelete ''foo'' ''sha256:abc'']),
      ([(''bar'', ''sha256:abc'')], [''sha256:abc'']))
   \<and> onBlobExpire (scheduler
       \<lparr>embedded = (),
        scheduler = \<lparr>pathToStateFile = ''/scheduler-state.json'',
                     onBlobExpire = OnBlobExpire_callback stubExpireEnv,
                     onManifestExpire = OnManifestExpire_callback stubExpireEnv\<rparr>,
        remoteURL = \<lparr>Scheme = ''https'', Host = ''upstream'', Path = []\<rparr>,
        authChallenger = \<lparr>rac_remoteURL = \<lparr>Scheme = ''https'', Host = ''upstream'', Path = []\<rparr>,
                           rac_cm = (), rac_cs = ()\<rparr>,
        descriptorService = memoryCache\<rparr>)
     (Tagged ''foo'' ''latest'')
     ([(''foo'', ''sha256:abc''), (''bar'', ''sha256:abc'')], [''sha256:abc''])
   = ((Some (ErrorString ''unexpected reference type : reference.taggedReference''), []),
      ([(''foo'', ''sha256:abc''), (''bar'', ''sha256:abc'')], [''sha256:abc'']))"
proof -
  let ?pr = "\<lparr>embedded = (),
             scheduler = \<lparr>pathToStateFile = ''/scheduler-state.json'',
                          onBlobExpire = OnBlobExpire_callback stubExpireEnv,
                          onManifestExpire = OnManifestExpire_callback stubExpireEnv\<rparr>,
             remoteURL = \<lparr>Scheme = ''https'', Host = ''upstream'', Path = []\<rparr>,
             authChallenger = \<lparr>rac_remoteURL = \<lparr>Scheme = ''https'', Host = ''upstream'', Path = []\<rparr>,
                                rac_cm = (), rac_cs = ()\<rparr>,
             descriptorService = memoryCache\<rparr>"
  let ?s = "([(''foo'', ''sha256:abc''), (''bar'', ''sha256:abc'')], [''sha256:abc''])"
  have start: "NewRegistryPullThroughCache stubStartupEnv stubExpireEnv ()
       \<lparr>RemoteURL = ''upstream'', Username = [], Password = []\<rparr> memoryCache
     = (Inr ?pr, [StartScheduler, GoSetBlobsPublic])"
    by (simp add: NewRegistryPullThroughCache_def stubStartupEnv_def)
  have r: "regRepository stubExpireEnv (Canonical ''foo'' ''sha256:abc'') ?s = Inr ''foo''"
    and d: "blobsDelete stubExpireEnv ''foo'' ''sha256:abc'' ?s = (None, ([(''bar'', ''sha256:abc'')], [''sha256:abc'']))"
    and v: "vacuumRemoveBlob stubExpireEnv ''sha256:abc'' ([(''bar'', ''sha256:abc'')], [''sha256:abc''])
              = (None, ([(''bar'', ''sha256:abc'')], []))"
    and m: "repoManifests stubExpireEnv ''foo'' ?s = Inr ''foo''"
    and md: "manifestsDelete stubExpireEnv ''foo'' ''sha256:abc'' ?s = (None, ([(''bar'', ''sha256:abc'')], [''sha256:abc'']))"
    and tn: "typeName stubExpireEnv (Tagged ''foo'' ''latest'') = ''reference.taggedReference''"
    by (simp_all add: stubExpireEnv_def)
  from expiry_callbacks [OF start, where ref = "Canonical ''foo'' ''sha256:abc''" and s = ?s and n = "''foo''"
      and dgst = "''sha256:abc''" and repo = "''foo''" and mfs = "''foo''"
      and ?s1.0 = "([(''bar'', ''sha256:abc'')], [''sha256:abc''])" and ?s2.0 = "([(''bar'', ''sha256:abc'')], [])"
      and ?s3.0 = "([(''bar'', ''sha256:abc'')], [''sha256:abc''])"] r d v m md
  have 1: "onBlobExpire (scheduler ?pr) (Canonical ''foo'' ''sha256:abc'') ?s
             = ((None, [BlobsDelete ''foo'' ''sha256:abc'', RemoveBlob ''sha256:abc'']), ([(''bar'', ''sha256:abc'')], []))"
    and 2: "onManifestExpire (scheduler ?pr) (Canonical ''foo'' ''sha256:abc'') ?s
             = ((None, [ManifestsDelete ''foo'' ''sha256:abc'']), ([(''bar'', ''sha256:abc'')], [''sha256:abc'']))"
    by blast+
  from expiry_callbacks [OF start, where ref = "Tagged ''foo'' ''latest''" and n = "''foo''" and t = "''latest''"
      and s = ?s] tn
  have 3: "onBlobExpire (scheduler ?pr) (Tagged ''foo'' ''latest'') ?s
             = ((Some (ErrorString ''unexpected reference type : reference.taggedReference''), []), ?s)"
    by simp
  from 1 2 3 show ?thesis by blast
qed

subsection \<open>Repository\<close>

text \<open>
  C7. A repository that the constructor returns was built with these parts: the remote
  repository comes from \<^verbatim>\<open>client.NewRepository\<close> for the name, the upstream URL and a
  transport over the default one whose authorizer has the challenge manager of the
  registry's auth challenger and one token handler, with the challenger's credentials and,
  as its scopes, exactly the one repository scope of that name with the one action
  \<open>pull\<close>. The blob store and the manifest store have the scheduler and the auth
  challenger of the registry, the tag service, which has no scheduler, its auth challenger;
  their local and remote parts are those of the local and the remote repository.
\<close>

theorem Repository_wiring:
  assumes built: "Repository env pr named = Inr repo"
  shows "\<exists>localRepo remoteRepo.
           embeddedRepository env (embedded pr) named = Inr localRepo
         \<and> NewRepository env named (remoteURLString env (remoteURL pr))
              (NewTransport DefaultTransport
                 [NewAuthorizer (challengeManager env (authChallenger pr))
                    [NewTokenHandlerWithOptions
                       (TokenHandlerOptions DefaultTransport (credentialStore env (authChallenger pr))
                          [RepositoryScope named [] [''pull'']])]])
             = Inr remoteRepo
         \<and> pbs_localStore (blobStore repo) = BlobsOf localRepo
         \<and> pbs_remoteStore (blobStore repo) = BlobsOf remoteRepo
         \<and> pbs_scheduler (blobStore repo) = scheduler pr
         \<and> pbs_authChallenger (blobStore repo) = authChallenger pr
         \<and> localManifests env localRepo [SkipLayerVerification] = Inr (pms_localManifests (manifests repo))
         \<and> remoteManifests env remoteRepo = Inr (pms_remoteManifests (manifests repo))
         \<and> pms_scheduler (manifests repo) = scheduler pr
         \<and> pms_authChallenger (manifests repo) = authChallenger pr
         \<and> pts_localTags (tags repo) = TagsOf localRepo
         \<and> pts_remoteTags (tags repo) = TagsOf remoteRepo
         \<and> pts_authChallenger (tags repo) = authChallenger pr
         \<and> name repo = named"
  using built
  by (auto simp: Repository_def Let_def split: sum.splits)

theorem Repository_wiring_witness:
  "\<exists>repo. Repository stubRepositoryEnv
        \<lparr>embedded = (), scheduler = ''scheduler'', remoteURL = \<lparr>Scheme = ''https'', Host = ''upstream'', Path = []\<rparr>,
         authChallenger = 1, descriptorService = memoryCache\<rparr> ''library/ubuntu'' = Inr repo
      \<and> pbs_remoteStore (blobStore repo) = BlobsOf ''https://upstream/v2/library/ubuntu''
      \<and> pbs_scheduler (blobStore repo) = ''scheduler''
      \<and> pms_scheduler (manifests repo) = ''scheduler''
      \<and> pbs_authChallenger (blobStore repo) = 1
      \<and> pms_authChallenger (manifests repo) = 1
      \<and> pts_authChallenger (tags repo) = 1"
proof -
  let ?pr = "\<lparr>embedded = (), scheduler = ''scheduler'',
              remoteURL = \<lparr>Scheme = ''https'', Host = ''upstream'', Path = []\<rparr>,
              authChallenger = 1::nat, descriptorService = memoryCache\<rparr>"
  have "\<exists>repo. Repository stubRepositoryEnv ?pr ''library/ubuntu'' = Inr repo"
    by (simp add: Repository_def stubRepositoryEnv_def)
  then obtain repo where built: "Repository stubRepositoryEnv ?pr ''library/ubuntu'' = Inr repo"
    by blast
  from Repository_wiring [OF built]
  have "pbs_remoteStore (blobStore repo) = BlobsOf ''https://upstream/v2/library/ubuntu''
      \<and> pbs_scheduler (blobStore repo) = ''scheduler''
      \<and> pms_scheduler (manifests repo) = ''scheduler''
      \<and> pbs_authChallenger (blobStore repo) = 1
      \<and> pms_authChallenger (manifests repo) = 1
      \<and> pts_authChallenger (tags repo) = 1"
    by (auto simp: stubRepositoryEnv_def)
  with built show ?thesis by blast
qed

section \<open>Properties of the local blob store\<close>

text \<open>
  C6. For every byte string, the empty one too: the upload of the bytes into a repository
  (create, write, commit) succeeds with a descriptor that has the digest of the bytes and
  their length as its size, and \<^verbatim>\<open>Open\<close> of that digest on the same blob store returns
  exactly the bytes. The store is content-addressable, so no other content may be stored
  under the digest of the bytes beforehand.
\<close>

theorem upload_roundtrip:
  assumes free: "\<forall>present. blobFiles reg (FromBytes blob) = Some present \<longrightarrow> present = blob"
  shows "\<exists>desc reg'. upload FromBytes repo blob reg = (Inr desc, reg')
           \<and> Digest desc = FromBytes blob
           \<and> Size desc = int (length blob)
           \<and> lbsOpen repo (Digest desc) reg' = Inr blob"
  using free
  by (auto simp: upload_def lbsCreate_def bwCommit_def bwWrite_def blobDescriptor_def lbsOpen_def lbsStat_def
      emptyDescriptor_def Let_def split: option.splits)

theorem upload_roundtrip_witness:
  "(\<exists>desc reg'. upload stubDigest ''foo/bar'' [] emptyRegistry = (Inr desc, reg')
       \<and> Digest desc = digestSha256Empty \<and> Size desc = 0
       \<and> lbsOpen ''foo/bar'' digestSha256Empty reg' = Inr [])
   \<and> (\<exists>desc reg'. upload stubDigest ''foo/bar'' [1, 2, 3]
          \<lparr>blobFiles = [''sha256:aaa'' \<mapsto> [1, 2, 3]], layerLinks = {(''foo/source'', ''sha256:aaa'')},
           descriptorCache = Map.empty\<rparr> = (Inr desc, reg')
       \<and> Digest desc = ''sha256:aaa'' \<and> Size desc = 3
       \<and> lbsOpen ''foo/bar'' ''sha256:aaa'' reg' = Inr [1, 2, 3])"
proof -
  let ?reg = "\<lparr>blobFiles = [''sha256:aaa'' \<mapsto> [1, 2, 3]], layerLinks = {(''foo/source'', ''sha256:aaa'')},
           descriptorCache = Map.empty\<rparr>"
  have e: "stubDigest [] = digestSha256Empty" and a: "stubDigest [1, 2, 3] = ''sha256:aaa''"
    by (simp_all add: stubDigest_def)
  have f1: "\<forall>present. blobFiles emptyRegistry (stubDigest []) = Some present \<longrightarrow> present = []"
    by (simp add: emptyRegistry_def)
  have f2: "\<forall>present. blobFiles ?reg (stubDigest [1, 2, 3]) = Some present \<longrightarrow> present = [1, 2, 3]"
    by (simp add: a)
  from upload_roundtrip [where FromBytes = stubDigest and blob = "[]" and reg = emptyRegistry
      and repo = "''foo/bar''", OF f1]
    upload_roundtrip [where FromBytes = stubDigest and blob = "[1, 2, 3]" and reg = ?reg
      and repo = "''foo/bar''", OF f2]
  show ?thesis
    unfolding e a by auto
qed

text \<open>
  C5. A blob is committed to repository \<open>A\<close> and then marked \<open>public = true\<close> in the
  descriptor cache. \<^verbatim>\<open>Create\<close> with the mount option for its digest, on another
  repository \<open>R\<close>, fails with \<^verbatim>\<open>ErrBlobMounted\<close> carrying the descriptor that the commit
  returned; afterwards \<^verbatim>\<open>Open\<close> returns the committed bytes both in \<open>A\<close> and in \<open>R\<close>, and
  their digest is the one of the descriptor.
\<close>

theorem mount_public_blob:
  assumes free: "\<forall>present. blobFiles reg0 (FromBytes blob) = Some present \<longrightarrow> present = blob"
    and committed: "upload FromBytes A blob reg0 = (Inr desc, reg1)"
    and marked: "isPublic (reg1\<lparr>descriptorCache := c\<rparr>) (Digest desc)"
    and other: "R \<noteq> A"
  shows "\<exists>reg'. lbsCreate R (Some (Digest desc)) (reg1\<lparr>descriptorCache := c\<rparr>) = (Inl (ErrBlobMounted desc), reg')
           \<and> lbsOpen A (Digest desc) reg' = Inr blob
           \<and> lbsOpen R (Digest desc) reg' = Inr blob
           \<and> FromBytes blob = Digest desc"
proof -
  let ?dgst = "FromBytes blob"
  let ?reg = "reg1\<lparr>descriptorCache := c\<rparr>"
  let ?reg' = "?reg\<lparr>layerLinks := insert (R, ?dgst) (layerLinks ?reg)\<rparr>"
  from committed free have d: "desc = blobDescriptor ?dgst blob"
    and f: "blobFiles reg1 ?dgst = Some blob"
    and l: "(A, ?dgst) \<in> layerLinks reg1"
    by (auto simp: upload_def lbsCreate_def bwCommit_def bwWrite_def emptyDescriptor_def Let_def
        split: option.splits if_splits)
  from d have dd: "Digest desc = ?dgst"
    by (simp add: blobDescriptor_def)
  from marked have m: "isPublic ?reg ?dgst"
    by (simp add: dd)
  have "lbsCreate R (Some ?dgst) ?reg = (Inl (ErrBlobMounted desc), ?reg')"
    using m by (simp add: lbsCreate_def f d)
  moreover have "lbsOpen A ?dgst ?reg' = Inr blob"
    by (simp add: lbsOpen_def lbsStat_def f l)
  moreover have "lbsOpen R ?dgst ?reg' = Inr blob"
    by (simp add: lbsOpen_def lbsStat_def f)
  ultimately show ?thesis
    unfolding dd by blast
qed

theorem mount_public_blob_witness:
  "upload stubDigest ''foo/source'' [1, 2, 3] emptyRegistry
     = (Inr \<lparr>MediaType = ''application/octet-stream'', Size = 3, Digest = ''sha256:aaa'', Annotations = Map.empty\<rparr>,
        \<lparr>blobFiles = [''sha256:aaa'' \<mapsto> [1, 2, 3]], layerLinks = {(''foo/source'', ''sha256:aaa'')},
         descriptorCache = Map.empty\<rparr>)
   \<and> (\<exists>reg'. lbsCreate ''foo/bar'' (Some ''sha256:aaa'')
          \<lparr>blobFiles = [''sha256:aaa'' \<mapsto> [1, 2, 3]], layerLinks = {(''foo/source'', ''sha256:aaa'')},
           descriptorCache = [''sha256:aaa'' \<mapsto> emptyDescriptor\<lparr>Annotations := [''public'' \<mapsto> ''true'']\<rparr>]\<rparr>
        = (Inl (ErrBlobMounted \<lparr>MediaType = ''application/octet-stream'', Size = 3, Digest = ''sha256:aaa'',
                                Annotations = Map.empty\<rparr>), reg')
       \<and> lbsOpen ''foo/source'' ''sha256:aaa'' reg' = Inr [1, 2, 3]
       \<and> lbsOpen ''foo/bar'' ''sha256:aaa'' reg' = Inr [1, 2, 3])"
proof -
  let ?desc = "\<lparr>MediaType = ''application/octet-stream'', Size = 3, Digest = ''sha256:aaa'', Annotations = Map.empty\<rparr>"
  let ?reg1 = "\<lparr>blobFiles = [''sha256:aaa'' \<mapsto> [1, 2, 3]], layerLinks = {(''foo/source'', ''sha256:aaa'')},
         descriptorCache = Map.empty\<rparr>"
  let ?c = "[''sha256:aaa'' \<mapsto> emptyDescriptor\<lparr>Annotations := [''public'' \<mapsto> ''true'']\<rparr>]"
  have a: "stubDigest [1, 2, 3] = ''sha256:aaa''"
    by (simp add: stubDigest_def)
  have free: "\<forall>present. blobFiles emptyRegistry (stubDigest [1, 2, 3]) = Some present \<longrightarrow> present = [1, 2, 3]"
    by (simp add: emptyRegistry_def)
  have committed: "upload stubDigest ''foo/source'' [1, 2, 3] emptyRegistry = (Inr ?desc, ?reg1)"
    by (simp add: upload_def lbsCreate_def bwCommit_def bwWrite_def blobDescriptor_def emptyDescriptor_def
        emptyRegistry_def a Let_def)
  have marked: "isPublic (?reg1\<lparr>descriptorCache := ?c\<rparr>) (Digest ?desc)"
    by (simp add: isPublic_def)
  have other: "''foo/bar'' \<noteq> ''foo/source''"
    by simp
  from mount_public_blob [where FromBytes = stubDigest and blob = "[1, 2, 3]" and ?reg0.0 = emptyRegistry,
      OF free committed marked other] committed
  show ?thesis
    by auto
qed

text \<open>
  C8. A blob of repository \<open>A\<close> has been mounted into another repository \<open>R\<close>. Deleting
  it from \<open>A\<close> succeeds and leaves it in \<open>R\<close>: \<^verbatim>\<open>Stat\<close> in \<open>R\<close> still answers with its
  descriptor, while \<^verbatim>\<open>Stat\<close> in \<open>A\<close> answers \<^verbatim>\<open>ErrBlobUnknown\<close>. Deleting it from \<open>R\<close>
  as well succeeds, and only then \<^verbatim>\<open>Stat\<close> in \<open>R\<close> answers \<^verbatim>\<open>ErrBlobUnknown\<close>.
\<close>

theorem delete_after_mount:
  assumes source: "lbsStat A dgst reg = Inr desc"
    and mounted: "lbsCreate R (Some dgst) reg = (Inl (ErrBlobMounted desc'), reg1)"
    and other: "R \<noteq> A"
    and del1: "lbsDelete A dgst reg1 = (e1, reg2)"
    and del2: "lbsDelete R dgst reg2 = (e2, reg3)"
  shows "e1 = None
       \<and> lbsStat R dgst reg2 = Inr desc
       \<and> lbsStat A dgst reg2 = Inl ErrBlobUnknown
       \<and> e2 = None
       \<and> lbsStat R dgst reg3 = Inl ErrBlobUnknown"
  using assms
  by (auto simp: lbsCreate_def lbsDelete_def lbsStat_def isPublic_def split: option.splits if_splits)

theorem delete_after_mount_witness:
  "lbsCreate ''foo/bar'' (Some ''sha256:aaa'')
       \<lparr>blobFiles = [''sha256:aaa'' \<mapsto> [1, 2, 3]], layerLinks = {(''foo/source'', ''sha256:aaa'')},
        descriptorCache = [''sha256:aaa'' \<mapsto> emptyDescriptor\<lparr>Annotations := [''public'' \<mapsto> ''true'']\<rparr>]\<rparr>
     = (Inl (ErrBlobMounted (blobDescriptor ''sha256:aaa'' [1, 2, 3])),
        \<lparr>blobFiles = [''sha256:aaa'' \<mapsto> [1, 2, 3]],
         layerLinks = {(''foo/bar'', ''sha256:aaa''), (''foo/source'', ''sha256:aaa'')},
         descriptorCache = [''sha256:aaa'' \<mapsto> emptyDescriptor\<lparr>Annotations := [''public'' \<mapsto> ''true'']\<rparr>]\<rparr>)
   \<and> (\<exists>reg2 reg3.
         lbsDelete ''foo/source'' ''sha256:aaa''
           \<lparr>blobFiles = [''sha256:aaa'' \<mapsto> [1, 2, 3]],
            layerLinks = {(''foo/bar'', ''sha256:aaa''), (''foo/source'', ''sha256:aaa'')},
            descriptorCache = [''sha256:aaa'' \<mapsto> emptyDescriptor\<lparr>Annotations := [''public'' \<mapsto> ''true'']\<rparr>]\<rparr>
           = (None, reg2)
       \<and> lbsStat ''foo/bar'' ''sha256:aaa'' reg2 = Inr (blobDescriptor ''sha256:aaa'' [1, 2, 3])
       \<and> lbsStat ''foo/source'' ''sha256:aaa'' reg2 = Inl ErrBlobUnknown
       \<and> lbsDelete ''foo/bar'' ''sha256:aaa'' reg2 = (None, reg3)
       \<and> lbsStat ''foo/bar'' ''sha256:aaa'' reg3 = Inl ErrBlobUnknown)"
proof -
  let ?c = "[''sha256:aaa'' \<mapsto> emptyDescriptor\<lparr>Annotations := [''public'' \<mapsto> ''true'']\<rparr>]"
  let ?reg = "\<lparr>blobFiles = [''sha256:aaa'' \<mapsto> [1, 2, 3]], layerLinks = {(''foo/source'', ''sha256:aaa'')},
        descriptorCache = ?c\<rparr>"
  let ?reg1 = "\<lparr>blobFiles = [''sha256:aaa'' \<mapsto> [1, 2, 3]],
         layerLinks = {(''foo/bar'', ''sha256:aaa''), (''foo/source'', ''sha256:aaa'')},
         descriptorCache = ?c\<rparr>"
  have source: "lbsStat ''foo/source'' ''sha256:aaa'' ?reg = Inr (blobDescriptor ''sha256:aaa'' [1, 2, 3])"
    by (simp add: lbsStat_def)
  have mounted: "lbsCreate ''foo/bar'' (Some ''sha256:aaa'') ?reg
                   = (Inl (ErrBlobMounted (blobDescriptor ''sha256:aaa'' [1, 2, 3])), ?reg1)"
    by (simp add: lbsCreate_def isPublic_def)
  have other: "''foo/bar'' \<noteq> ''foo/source''"
    by simp
  obtain e1 reg2 where del1: "lbsDelete ''foo/source'' ''sha256:aaa'' ?reg1 = (e1, reg2)"
    by (cases "lbsDelete ''foo/source'' ''sha256:aaa'' ?reg1")
  obtain e2 reg3 where del2: "lbsDelete ''foo/bar'' ''sha256:aaa'' reg2 = (e2, reg3)"
    by (cases "lbsDelete ''foo/bar'' ''sha256:aaa'' reg2")
  from delete_after_mount [OF source mounted other del1 del2] del1 del2 mounted
  show ?thesis
    by simp
qed

end
